theory Spec2Isabelle
  imports Main "HOL-Library.Word" "HOL-Library.Multiset"
begin

section \<open>Entities\<close>

text \<open>
  The entities of \<^verbatim>\<open>internal/entity\<close>. A \<^verbatim>\<open>uuid.UUID\<close> is a 16-byte array, hence a
  128-bit word. A \<^verbatim>\<open>time.Time\<close> is an instant, represented by a natural number; the
  nullable \<^verbatim>\<open>*time.Time\<close> of \<^verbatim>\<open>MergedAt\<close> is an option. The declaration of
  \<^verbatim>\<open>entity.Team\<close> is read off its uses in \<^verbatim>\<open>controller/team.go\<close> and
  \<^verbatim>\<open>usecase/team.go\<close>: a name and a list of member identifiers.
\<close>

type_synonym uuid = "128 word"

type_synonym Time = nat

record Team =
  TeamName :: string
  Members :: "uuid list"

record User =
  UserID :: uuid
  Username :: string
  TeamName :: string
  IsActive :: bool

datatype PullRequestStatus = StatusOpen | StatusMerged

record PullRequest =
  PullRequestID :: uuid
  PullRequestName :: string
  AuthorID :: uuid
  Status :: PullRequestStatus
  AssignedReviewers :: "uuid list"
  CreatedAt :: Time
  MergedAt :: "Time option"

text \<open>
  The error values of \<^verbatim>\<open>repository/memory.go\<close> and \<^verbatim>\<open>usecase/pull_request.go\<close>.
  The repository interfaces return Go's open \<^verbatim>\<open>error\<close> type, so another implementation
  may return any other error: \<open>ErrOther\<close> stands for those.
\<close>

datatype error =
    ErrNotFound
  | ErrAlreadyExists
  | ErrPRMerged
  | ErrNotAssigned
  | ErrNoCandidate
  | ErrOther string

section \<open>Repository contracts\<close>

text \<open>
  The three interfaces of \<^verbatim>\<open>repository/contracts.go\<close>, as records of functions over the
  state \<open>'s\<close> of the storage behind them. A method that writes returns the error or the
  new state; a method that reads returns the error or the value read.
\<close>

record 's UserRepository =
  CreateUser :: "'s \<Rightarrow> User \<Rightarrow> error + 's"
  UpdateUser :: "'s \<Rightarrow> User \<Rightarrow> error + 's"
  GetUser :: "'s \<Rightarrow> uuid \<Rightarrow> error + User"
  UserExists :: "'s \<Rightarrow> uuid \<Rightarrow> error + bool"
  GetUsersByTeam :: "'s \<Rightarrow> string \<Rightarrow> error + User list"
  GetUsersByIDs :: "'s \<Rightarrow> uuid list \<Rightarrow> error + User list"

record 's TeamRepository =
  CreateTeam :: "'s \<Rightarrow> Team \<Rightarrow> error + 's"
  GetTeam :: "'s \<Rightarrow> string \<Rightarrow> error + Team"
  TeamExists :: "'s \<Rightarrow> string \<Rightarrow> error + bool"

record 's PullRequestRepository =
  CreatePullRequest :: "'s \<Rightarrow> PullRequest \<Rightarrow> error + 's"
  GetPullRequest :: "'s \<Rightarrow> uuid \<Rightarrow> error + PullRequest"
  UpdatePullRequest :: "'s \<Rightarrow> PullRequest \<Rightarrow> error + 's"
  GetPullRequestsByReviewer :: "'s \<Rightarrow> uuid \<Rightarrow> error + PullRequest list"
  PRExists :: "'s \<Rightarrow> uuid \<Rightarrow> error + bool"

section \<open>The in-memory repository\<close>

text \<open>
  \<^verbatim>\<open>MemoryRepository\<close> of \<^verbatim>\<open>repository/memory.go\<close>: three Go maps (the mutex and the
  logger carry no data). The Go maps hold pointers; every method of the use cases copies
  the struct it reads (\<^verbatim>\<open>*user\<close>, \<^verbatim>\<open>*pr\<close>) and writes back through
  \<^verbatim>\<open>Create...\<close>/\<^verbatim>\<open>Update...\<close> with a pointer to its own copy, so the maps are modelled
  as maps to values. The one place where a copy shares memory with the stored object is
  the reviewer slice of a pull request in \<^verbatim>\<open>ReassignReviewer\<close>: \<^verbatim>\<open>replaceReviewer\<close>
  writes through the shared backing array and \<^verbatim>\<open>UpdatePullRequest\<close> then stores the same
  list under the same key, which is what the value model stores too.

  A \<^verbatim>\<open>range\<close> over a Go map visits every entry once, in an order the language leaves
  open. The two methods that iterate take that order as their first argument: a list of
  keys. The theorems that depend on it assume that the list enumerates the keys of the map
  (\<open>enumerates\<close> below), and nothing else about it.
\<close>

record MemoryRepository =
  users :: "uuid \<rightharpoonup> User"
  teams :: "string \<rightharpoonup> Team"
  pullRequests :: "uuid \<rightharpoonup> PullRequest"

definition NewMemoryRepository :: MemoryRepository where
  "NewMemoryRepository = \<lparr>users = Map.empty, teams = Map.empty, pullRequests = Map.empty\<rparr>"

definition enumerates :: "'k list \<Rightarrow> ('k \<rightharpoonup> 'v) \<Rightarrow> bool" where
  "enumerates order m \<longleftrightarrow> distinct order \<and> set order = dom m"

definition Memory_CreateUser :: "MemoryRepository \<Rightarrow> User \<Rightarrow> error + MemoryRepository" where
  "Memory_CreateUser r user =
     (if users r (UserID user) \<noteq> None then Inl ErrAlreadyExists
      else Inr (r\<lparr>users := (users r)(UserID user \<mapsto> user)\<rparr>))"

definition Memory_UpdateUser :: "MemoryRepository \<Rightarrow> User \<Rightarrow> error + MemoryRepository" where
  "Memory_UpdateUser r user =
     (if users r (UserID user) = None then Inl ErrNotFound
      else Inr (r\<lparr>users := (users r)(UserID user \<mapsto> user)\<rparr>))"

definition Memory_GetUser :: "MemoryRepository \<Rightarrow> uuid \<Rightarrow> error + User" where
  "Memory_GetUser r userID =
     (case users r userID of None \<Rightarrow> Inl ErrNotFound | Some user \<Rightarrow> Inr user)"

definition Memory_UserExists :: "MemoryRepository \<Rightarrow> uuid \<Rightarrow> error + bool" where
  "Memory_UserExists r userID = Inr (users r userID \<noteq> None)"

definition Memory_GetUsersByTeam ::
  "uuid list \<Rightarrow> MemoryRepository \<Rightarrow> string \<Rightarrow> error + User list" where
  "Memory_GetUsersByTeam order r teamName =
     Inr (filter (\<lambda>user. User.TeamName user = teamName) (List.map_filter (users r) order))"

definition Memory_GetUsersByIDs :: "MemoryRepository \<Rightarrow> uuid list \<Rightarrow> error + User list" where
  "Memory_GetUsersByIDs r userIDs = Inr (List.map_filter (users r) userIDs)"

definition Memory_CreateTeam :: "MemoryRepository \<Rightarrow> Team \<Rightarrow> error + MemoryRepository" where
  "Memory_CreateTeam r team =
     (if teams r (Team.TeamName team) \<noteq> None then Inl ErrAlreadyExists
      else Inr (r\<lparr>teams := (teams r)(Team.TeamName team \<mapsto> team)\<rparr>))"

definition Memory_GetTeam :: "MemoryRepository \<Rightarrow> string \<Rightarrow> error + Team" where
  "Memory_GetTeam r teamName =
     (case teams r teamName of None \<Rightarrow> Inl ErrNotFound | Some team \<Rightarrow> Inr team)"

definition Memory_TeamExists :: "MemoryRepository \<Rightarrow> string \<Rightarrow> error + bool" where
  "Memory_TeamExists r teamName = Inr (teams r teamName \<noteq> None)"

definition Memory_CreatePullRequest ::
  "MemoryRepository \<Rightarrow> PullRequest \<Rightarrow> error + MemoryRepository" where
  "Memory_CreatePullRequest r pr =
     (if pullRequests r (PullRequestID pr) \<noteq> None then Inl ErrAlreadyExists
      else Inr (r\<lparr>pullRequests := (pullRequests r)(PullRequestID pr \<mapsto> pr)\<rparr>))"

definition Memory_GetPullRequest :: "MemoryRepository \<Rightarrow> uuid \<Rightarrow> error + PullRequest" where
  "Memory_GetPullRequest r prID =
     (case pullRequests r prID of None \<Rightarrow> Inl ErrNotFound | Some pr \<Rightarrow> Inr pr)"

definition Memory_UpdatePullRequest ::
  "MemoryRepository \<Rightarrow> PullRequest \<Rightarrow> error + MemoryRepository" where
  "Memory_UpdatePullRequest r pr =
     (if pullRequests r (PullRequestID pr) = None then Inl ErrNotFound
      else Inr (r\<lparr>pullRequests := (pullRequests r)(PullRequestID pr \<mapsto> pr)\<rparr>))"

definition Memory_GetPullRequestsByReviewer ::
  "uuid list \<Rightarrow> MemoryRepository \<Rightarrow> uuid \<Rightarrow> error + PullRequest list" where
  "Memory_GetPullRequestsByReviewer order r userID =
     Inr (filter (\<lambda>pr. userID \<in> set (AssignedReviewers pr))
            (List.map_filter (pullRequests r) order))"

definition Memory_PRExists :: "MemoryRepository \<Rightarrow> uuid \<Rightarrow> error + bool" where
  "Memory_PRExists r prID = Inr (pullRequests r prID \<noteq> None)"

text \<open>
  \<^verbatim>\<open>MemoryRepository\<close> implements the three interfaces (the \<^verbatim>\<open>var _ UserRepository = ...\<close>
  assertions of \<^verbatim>\<open>memory.go\<close>).
\<close>

definition asUserRepository :: "uuid list \<Rightarrow> MemoryRepository UserRepository" where
  "asUserRepository order =
     \<lparr>CreateUser = Memory_CreateUser, UpdateUser = Memory_UpdateUser,
      GetUser = Memory_GetUser, UserExists = Memory_UserExists,
      GetUsersByTeam = Memory_GetUsersByTeam order, GetUsersByIDs = Memory_GetUsersByIDs\<rparr>"

definition asTeamRepository :: "MemoryRepository TeamRepository" where
  "asTeamRepository =
     \<lparr>CreateTeam = Memory_CreateTeam, GetTeam = Memory_GetTeam,
      TeamExists = Memory_TeamExists\<rparr>"

definition asPullRequestRepository :: "uuid list \<Rightarrow> MemoryRepository PullRequestRepository" where
  "asPullRequestRepository order =
     \<lparr>CreatePullRequest = Memory_CreatePullRequest, GetPullRequest = Memory_GetPullRequest,
      UpdatePullRequest = Memory_UpdatePullRequest,
      GetPullRequestsByReviewer = Memory_GetPullRequestsByReviewer order,
      PRExists = Memory_PRExists\<rparr>"

section \<open>The pseudo-random source\<close>

text \<open>
  \<^verbatim>\<open>math/rand\<close> belongs to Go's standard library. The use cases call \<^verbatim>\<open>rand.Intn\<close> and
  \<^verbatim>\<open>rand.Shuffle\<close>; both are modelled by their documented behaviour, with the raw draws
  of the generator given as an argument \<open>rnd\<close>, so that a theorem for every \<open>rnd\<close> holds for
  every outcome. \<^verbatim>\<open>Intn(n)\<close> returns a number in \<open>[0, n)\<close> (and panics for \<open>n \<le> 0\<close>: its
  only call is guarded by \<^verbatim>\<open>len(candidates) == 0\<close>). \<^verbatim>\<open>Shuffle(n, swap)\<close> is the
  Fisher-Yates loop: for \<open>i\<close> from \<open>n - 1\<close> down to \<open>1\<close> it calls \<^verbatim>\<open>swap(i, j)\<close> with
  \<open>j\<close> drawn from \<open>[0, i]\<close>.
\<close>

definition Intn :: "nat \<Rightarrow> nat \<Rightarrow> nat" where
  "Intn draw n = draw mod n"

fun Shuffle_loop :: "(nat \<Rightarrow> nat) \<Rightarrow> nat \<Rightarrow> (nat \<Rightarrow> nat \<Rightarrow> 'a \<Rightarrow> 'a) \<Rightarrow> 'a \<Rightarrow> 'a" where
  "Shuffle_loop rnd 0 swap st = st"
| "Shuffle_loop rnd (Suc i) swap st =
     Shuffle_loop rnd i swap (swap (Suc i) (Intn (rnd (Suc i)) (Suc (Suc i))) st)"

definition Shuffle :: "(nat \<Rightarrow> nat) \<Rightarrow> nat \<Rightarrow> (nat \<Rightarrow> nat \<Rightarrow> 'a \<Rightarrow> 'a) \<Rightarrow> 'a \<Rightarrow> 'a" where
  "Shuffle rnd n swap st = Shuffle_loop rnd (n - 1) swap st"

section \<open>The pull-request use case\<close>

text \<open>
  \<^verbatim>\<open>usecase/pull_request.go\<close>. The fields \<^verbatim>\<open>userRepo\<close> and \<^verbatim>\<open>prRepo\<close> of the receiver are
  the leading arguments, \<open>now\<close> is the value of \<^verbatim>\<open>time.Now()\<close>, \<open>rnd\<close> the random source,
  and \<open>s\<close> the state of the storage. A use case returns its result together with the
  state it leaves behind. Logging is left out.
\<close>

definition min_int :: "nat \<Rightarrow> nat \<Rightarrow> nat" where
  "min_int a b = (if a < b then a else b)"

definition checkPRNotExists :: "'s PullRequestRepository \<Rightarrow> 's \<Rightarrow> uuid \<Rightarrow> error option" where
  "checkPRNotExists prRepo s prID =
     (case PRExists prRepo s prID of
        Inl err \<Rightarrow> Some err
      | Inr exists \<Rightarrow> if exists then Some ErrAlreadyExists else None)"

definition getAuthor :: "'s UserRepository \<Rightarrow> 's \<Rightarrow> uuid \<Rightarrow> error + User" where
  "getAuthor userRepo s authorID = GetUser userRepo s authorID"

fun filterActiveCandidates :: "User list \<Rightarrow> uuid \<Rightarrow> User list" where
  "filterActiveCandidates [] authorID = []"
| "filterActiveCandidates (member # teamMembers) authorID =
     (if UserID member \<noteq> authorID \<and> IsActive member
      then member # filterActiveCandidates teamMembers authorID
      else filterActiveCandidates teamMembers authorID)"

definition swapCandidates :: "nat \<Rightarrow> nat \<Rightarrow> User list \<Rightarrow> User list" where
  "swapCandidates i j candidates = candidates[i := candidates ! j, j := candidates ! i]"

definition selectRandomReviewers :: "(nat \<Rightarrow> nat) \<Rightarrow> User list \<Rightarrow> nat \<Rightarrow> uuid list" where
  "selectRandomReviewers rnd candidates maxCount =
     (let count = min_int (length candidates) maxCount in
      if count = 0 then []
      else map UserID
             (take count (Shuffle rnd (length candidates) swapCandidates candidates)))"

definition assignReviewers ::
  "'s UserRepository \<Rightarrow> (nat \<Rightarrow> nat) \<Rightarrow> 's \<Rightarrow> User \<Rightarrow> error + uuid list" where
  "assignReviewers userRepo rnd s author =
     (case GetUsersByTeam userRepo s (User.TeamName author) of
        Inl err \<Rightarrow> Inl err
      | Inr teamMembers \<Rightarrow>
          Inr (selectRandomReviewers rnd
                 (filterActiveCandidates teamMembers (UserID author)) 2))"

definition CreatePR ::
  "'s UserRepository \<Rightarrow> 's PullRequestRepository \<Rightarrow> Time \<Rightarrow> (nat \<Rightarrow> nat) \<Rightarrow> 's \<Rightarrow>
     uuid \<Rightarrow> string \<Rightarrow> uuid \<Rightarrow> (error + PullRequest) \<times> 's" where
  "CreatePR userRepo prRepo now rnd s prID prName authorID =
     (case checkPRNotExists prRepo s prID of
        Some err \<Rightarrow> (Inl err, s)
      | None \<Rightarrow>
     (case getAuthor userRepo s authorID of
        Inl err \<Rightarrow> (Inl err, s)
      | Inr author \<Rightarrow>
     (case assignReviewers userRepo rnd s author of
        Inl err \<Rightarrow> (Inl err, s)
      | Inr reviewers \<Rightarrow>
          (let pr = \<lparr>PullRequestID = prID, PullRequestName = prName, AuthorID = authorID,
                     Status = StatusOpen, AssignedReviewers = reviewers,
                     CreatedAt = now, MergedAt = None\<rparr>
           in case CreatePullRequest prRepo s pr of
                Inl err \<Rightarrow> (Inl err, s)
              | Inr s' \<Rightarrow> (Inr pr, s')))))"

definition getPR :: "'s PullRequestRepository \<Rightarrow> 's \<Rightarrow> uuid \<Rightarrow> error + PullRequest" where
  "getPR prRepo s prID = GetPullRequest prRepo s prID"

definition getUser :: "'s UserRepository \<Rightarrow> 's \<Rightarrow> uuid \<Rightarrow> error + User" where
  "getUser userRepo s userID = GetUser userRepo s userID"

definition MergePR ::
  "'s PullRequestRepository \<Rightarrow> Time \<Rightarrow> 's \<Rightarrow> uuid \<Rightarrow> (error + PullRequest) \<times> 's" where
  "MergePR prRepo now s prID =
     (case getPR prRepo s prID of
        Inl err \<Rightarrow> (Inl err, s)
      | Inr pr \<Rightarrow>
          if Status pr = StatusMerged then (Inr pr, s)
          else (let pr' = pr\<lparr>Status := StatusMerged, MergedAt := Some now\<rparr>
                in case UpdatePullRequest prRepo s pr' of
                     Inl err \<Rightarrow> (Inl err, s)
                   | Inr s' \<Rightarrow> (Inr pr', s')))"

definition checkPRNotMerged :: "PullRequest \<Rightarrow> error option" where
  "checkPRNotMerged pr = (if Status pr = StatusMerged then Some ErrPRMerged else None)"

definition checkReviewerAssigned :: "PullRequest \<Rightarrow> uuid \<Rightarrow> error option" where
  "checkReviewerAssigned pr reviewerID =
     (if reviewerID \<in> set (AssignedReviewers pr) then None else Some ErrNotAssigned)"

definition isAlreadyReviewer :: "uuid \<Rightarrow> uuid list \<Rightarrow> bool" where
  "isAlreadyReviewer userID reviewers \<longleftrightarrow> userID \<in> set reviewers"

fun filterReplacementCandidates :: "User list \<Rightarrow> uuid \<Rightarrow> uuid list \<Rightarrow> User list" where
  "filterReplacementCandidates [] authorID currentReviewers = []"
| "filterReplacementCandidates (member # teamMembers) authorID currentReviewers =
     (if \<not> IsActive member
      then filterReplacementCandidates teamMembers authorID currentReviewers
      else if UserID member = authorID
      then filterReplacementCandidates teamMembers authorID currentReviewers
      else if isAlreadyReviewer (UserID member) currentReviewers
      then filterReplacementCandidates teamMembers authorID currentReviewers
      else member # filterReplacementCandidates teamMembers authorID currentReviewers)"

definition findReplacementReviewer ::
  "'s UserRepository \<Rightarrow> (nat \<Rightarrow> nat) \<Rightarrow> 's \<Rightarrow> string \<Rightarrow> uuid \<Rightarrow> uuid list \<Rightarrow> error + User" where
  "findReplacementReviewer userRepo rnd s teamName authorID currentReviewers =
     (case GetUsersByTeam userRepo s teamName of
        Inl err \<Rightarrow> Inl err
      | Inr teamMembers \<Rightarrow>
          (let candidates = filterReplacementCandidates teamMembers authorID currentReviewers
           in if length candidates = 0 then Inl ErrNoCandidate
              else Inr (candidates ! Intn (rnd 0) (length candidates))))"

text \<open>
  \<^verbatim>\<open>replaceReviewer\<close> overwrites the first element equal to \<^verbatim>\<open>oldReviewerID\<close> and returns;
  \<open>replaceFirst\<close> is its loop over the slice.
\<close>

fun replaceFirst :: "uuid list \<Rightarrow> uuid \<Rightarrow> uuid \<Rightarrow> uuid list" where
  "replaceFirst [] oldReviewerID newReviewerID = []"
| "replaceFirst (rid # ids) oldReviewerID newReviewerID =
     (if rid = oldReviewerID then newReviewerID # ids
      else rid # replaceFirst ids oldReviewerID newReviewerID)"

definition replaceReviewer :: "PullRequest \<Rightarrow> uuid \<Rightarrow> uuid \<Rightarrow> PullRequest" where
  "replaceReviewer pr oldReviewerID newReviewerID =
     pr\<lparr>AssignedReviewers := replaceFirst (AssignedReviewers pr) oldReviewerID newReviewerID\<rparr>"

definition ReassignReviewer ::
  "'s UserRepository \<Rightarrow> 's PullRequestRepository \<Rightarrow> (nat \<Rightarrow> nat) \<Rightarrow> 's \<Rightarrow>
     uuid \<Rightarrow> uuid \<Rightarrow> (error + PullRequest \<times> uuid) \<times> 's" where
  "ReassignReviewer userRepo prRepo rnd s prID oldReviewerID =
     (case getPR prRepo s prID of
        Inl err \<Rightarrow> (Inl err, s)
      | Inr pr \<Rightarrow>
     (case checkPRNotMerged pr of
        Some err \<Rightarrow> (Inl err, s)
      | None \<Rightarrow>
     (case checkReviewerAssigned pr oldReviewerID of
        Some err \<Rightarrow> (Inl err, s)
      | None \<Rightarrow>
     (case getUser userRepo s oldReviewerID of
        Inl err \<Rightarrow> (Inl err, s)
      | Inr oldReviewer \<Rightarrow>
     (case findReplacementReviewer userRepo rnd s (User.TeamName oldReviewer)
             (AuthorID pr) (AssignedReviewers pr) of
        Inl err \<Rightarrow> (Inl err, s)
      | Inr newReviewer \<Rightarrow>
          (let pr' = replaceReviewer pr oldReviewerID (UserID newReviewer)
           in case UpdatePullRequest prRepo s pr' of
                Inl err \<Rightarrow> (Inl err, s)
              | Inr s' \<Rightarrow> (Inr (pr', UserID newReviewer), s')))))))"

definition GetUserReviews ::
  "'s PullRequestRepository \<Rightarrow> 's \<Rightarrow> uuid \<Rightarrow> error + PullRequest list" where
  "GetUserReviews prRepo s userID = GetPullRequestsByReviewer prRepo s userID"

section \<open>The team use case\<close>

text \<open>
  \<^verbatim>\<open>usecase/team.go\<close>. \<^verbatim>\<open>createOrUpdateMembers\<close> passes \<^verbatim>\<open>&member\<close> to the repository.
  The file \<^verbatim>\<open>pull_request.go\<close> of the same package ranges over an integer
  (\<^verbatim>\<open>for i := range count\<close>), which needs Go 1.22, and from Go 1.22 on every iteration of
  a \<^verbatim>\<open>for\<close> loop has its own \<^verbatim>\<open>member\<close> variable: each stored pointer refers to its own
  copy of the member, which the value model expresses. The loop returns at the first
  failing call and leaves the writes of the earlier iterations in place, so the function
  returns the state next to the error.
\<close>

definition checkTeamNotExists :: "'s TeamRepository \<Rightarrow> 's \<Rightarrow> string \<Rightarrow> error option" where
  "checkTeamNotExists teamRepo s teamName =
     (case TeamExists teamRepo s teamName of
        Inl err \<Rightarrow> Some err
      | Inr exists \<Rightarrow> if exists then Some ErrAlreadyExists else None)"

fun createOrUpdateMembers :: "'s UserRepository \<Rightarrow> 's \<Rightarrow> User list \<Rightarrow> error option \<times> 's" where
  "createOrUpdateMembers userRepo s [] = (None, s)"
| "createOrUpdateMembers userRepo s (member # members) =
     (case UserExists userRepo s (UserID member) of
        Inl err \<Rightarrow> (Some err, s)
      | Inr exists \<Rightarrow>
          if exists then
            (case UpdateUser userRepo s member of
               Inl err \<Rightarrow> (Some err, s)
             | Inr s' \<Rightarrow> createOrUpdateMembers userRepo s' members)
          else
            (case CreateUser userRepo s member of
               Inl err \<Rightarrow> (Some err, s)
             | Inr s' \<Rightarrow> createOrUpdateMembers userRepo s' members))"

definition createTeam :: "'s TeamRepository \<Rightarrow> 's \<Rightarrow> Team \<Rightarrow> error + 's" where
  "createTeam teamRepo s team = CreateTeam teamRepo s team"

definition AddTeam ::
  "'s UserRepository \<Rightarrow> 's TeamRepository \<Rightarrow> 's \<Rightarrow> Team \<Rightarrow> User list \<Rightarrow> (error + Team) \<times> 's" where
  "AddTeam userRepo teamRepo s team members =
     (case checkTeamNotExists teamRepo s (Team.TeamName team) of
        Some err \<Rightarrow> (Inl err, s)
      | None \<Rightarrow>
     (case createOrUpdateMembers userRepo s members of
        (Some err, s') \<Rightarrow> (Inl err, s')
      | (None, s') \<Rightarrow>
     (case createTeam teamRepo s' team of
        Inl err \<Rightarrow> (Inl err, s')
      | Inr s'' \<Rightarrow> (Inr team, s''))))"

definition getTeamByName :: "'s TeamRepository \<Rightarrow> 's \<Rightarrow> string \<Rightarrow> error + Team" where
  "getTeamByName teamRepo s teamName = GetTeam teamRepo s teamName"

definition getTeamMembers :: "'s UserRepository \<Rightarrow> 's \<Rightarrow> uuid list \<Rightarrow> error + User list" where
  "getTeamMembers userRepo s memberIDs = GetUsersByIDs userRepo s memberIDs"

text \<open>The method \<^verbatim>\<open>GetTeam\<close> of the team use case (the interface has a \<open>GetTeam\<close> too).\<close>

definition GetTeam_usecase ::
  "'s UserRepository \<Rightarrow> 's TeamRepository \<Rightarrow> 's \<Rightarrow> string \<Rightarrow> error + Team \<times> User list" where
  "GetTeam_usecase userRepo teamRepo s teamName =
     (case getTeamByName teamRepo s teamName of
        Inl err \<Rightarrow> Inl err
      | Inr team \<Rightarrow>
     (case getTeamMembers userRepo s (Members team) of
        Inl err \<Rightarrow> Inl err
      | Inr members \<Rightarrow> Inr (team, members)))"

section \<open>The user use case\<close>

definition updateUserActiveStatus :: "User \<Rightarrow> bool \<Rightarrow> User" where
  "updateUserActiveStatus user isActive = user\<lparr>IsActive := isActive\<rparr>"

definition saveUser :: "'s UserRepository \<Rightarrow> 's \<Rightarrow> User \<Rightarrow> error + 's" where
  "saveUser userRepo s user = UpdateUser userRepo s user"

definition SetIsActive ::
  "'s UserRepository \<Rightarrow> 's \<Rightarrow> uuid \<Rightarrow> bool \<Rightarrow> (error + User) \<times> 's" where
  "SetIsActive userRepo s userID isActive =
     (case getUser userRepo s userID of
        Inl err \<Rightarrow> (Inl err, s)
      | Inr user \<Rightarrow>
          (let updatedUser = updateUserActiveStatus user isActive
           in case saveUser userRepo s updatedUser of
                Inl err \<Rightarrow> (Inl err, s)
              | Inr s' \<Rightarrow> (Inr updatedUser, s')))"

section \<open>The application\<close>

text \<open>
  \<^verbatim>\<open>app.New\<close> creates one \<^verbatim>\<open>MemoryRepository\<close> and hands it to the three use cases as
  each of their repositories. Five routes change the repository. A request is served in
  an environment that fixes what the code leaves open: the clock, the random draws and
  the orders in which the two maps are ranged over. \<open>serve\<close> runs a sequence of requests,
  each in its own environment, one after the other.
\<close>

record environment =
  timeNow :: Time
  randDraws :: "nat \<Rightarrow> nat"
  usersRange :: "uuid list"
  pullRequestsRange :: "uuid list"

datatype request =
    AddTeamRequest Team "User list"
  | SetIsActiveRequest uuid bool
  | CreatePRRequest uuid string uuid
  | MergePRRequest uuid
  | ReassignReviewerRequest uuid uuid

fun handle :: "environment \<Rightarrow> request \<Rightarrow> MemoryRepository \<Rightarrow> MemoryRepository" where
  "handle env (AddTeamRequest team members) repo =
     snd (AddTeam (asUserRepository (usersRange env)) asTeamRepository repo team members)"
| "handle env (SetIsActiveRequest userID isActive) repo =
     snd (SetIsActive (asUserRepository (usersRange env)) repo userID isActive)"
| "handle env (CreatePRRequest prID prName authorID) repo =
     snd (CreatePR (asUserRepository (usersRange env))
            (asPullRequestRepository (pullRequestsRange env))
            (timeNow env) (randDraws env) repo prID prName authorID)"
| "handle env (MergePRRequest prID) repo =
     snd (MergePR (asPullRequestRepository (pullRequestsRange env)) (timeNow env) repo prID)"
| "handle env (ReassignReviewerRequest prID oldReviewerID) repo =
     snd (ReassignReviewer (asUserRepository (usersRange env))
            (asPullRequestRepository (pullRequestsRange env))
            (randDraws env) repo prID oldReviewerID)"

fun serve :: "(environment \<times> request) list \<Rightarrow> MemoryRepository \<Rightarrow> MemoryRepository" where
  "serve [] repo = repo"
| "serve ((env, req) # rest) repo = serve rest (handle env req repo)"

section \<open>Invariants of the in-memory repository\<close>

text \<open>
  Every write of \<^verbatim>\<open>memory.go\<close> stores an entity under its own identifier
  (\<^verbatim>\<open>r.users[user.UserID] = user\<close>, \<^verbatim>\<open>r.pullRequests[pr.PullRequestID] = pr\<close>), so in
  every state that the application reaches the key of an entry is the identifier of its
  value (lemma \<open>serve_keyed\<close>). \<open>mergedAt_iff_merged\<close> is the invariant of the merge
  timestamp.
\<close>

definition users_keyed :: "MemoryRepository \<Rightarrow> bool" where
  "users_keyed r \<longleftrightarrow> (\<forall>k u. users r k = Some u \<longrightarrow> UserID u = k)"

definition prs_keyed :: "MemoryRepository \<Rightarrow> bool" where
  "prs_keyed r \<longleftrightarrow> (\<forall>k p. pullRequests r k = Some p \<longrightarrow> PullRequestID p = k)"

definition mergedAt_iff_merged :: "MemoryRepository \<Rightarrow> bool" where
  "mergedAt_iff_merged r \<longleftrightarrow>
     (\<forall>k pr. pullRequests r k = Some pr \<longrightarrow>
        (MergedAt pr \<noteq> None \<longleftrightarrow> Status pr = StatusMerged))"

section \<open>Example data\<close>

text \<open>
  The scenario of the specification: team \<open>A\<close> with the active members \<open>u1\<close>, \<open>u2\<close>, \<open>u3\<close>,
  an open pull request \<open>10\<close> of \<open>u1\<close> reviewed by \<open>u2\<close> and \<open>u3\<close>, and a merged one, \<open>11\<close>.
  \<open>teamA5\<close> has two more members of the team, the active \<open>u4\<close> and the inactive \<open>u5\<close>.
\<close>

definition u1 :: User where
  "u1 = \<lparr>UserID = 1, Username = ''u1'', TeamName = ''A'', IsActive = True\<rparr>"

definition u2 :: User where
  "u2 = \<lparr>UserID = 2, Username = ''u2'', TeamName = ''A'', IsActive = True\<rparr>"

definition u3 :: User where
  "u3 = \<lparr>UserID = 3, Username = ''u3'', TeamName = ''A'', IsActive = True\<rparr>"

definition u4 :: User where
  "u4 = \<lparr>UserID = 4, Username = ''u4'', TeamName = ''A'', IsActive = True\<rparr>"

definition u5 :: User where
  "u5 = \<lparr>UserID = 5, Username = ''u5'', TeamName = ''A'', IsActive = False\<rparr>"

definition pr10 :: PullRequest where
  "pr10 = \<lparr>PullRequestID = 10, PullRequestName = ''feature'', AuthorID = 1,
           Status = StatusOpen, AssignedReviewers = [2, 3], CreatedAt = 100,
           MergedAt = None\<rparr>"

definition pr11 :: PullRequest where
  "pr11 = \<lparr>PullRequestID = 11, PullRequestName = ''hotfix'', AuthorID = 1,
           Status = StatusMerged, AssignedReviewers = [2, 3], CreatedAt = 200,
           MergedAt = Some 250\<rparr>"

definition teamA3 :: MemoryRepository where
  "teamA3 = \<lparr>users = [1 \<mapsto> u1, 2 \<mapsto> u2, 3 \<mapsto> u3],
             teams = [''A'' \<mapsto> \<lparr>Team.TeamName = ''A'', Members = [1, 2, 3]\<rparr>],
             pullRequests = [10 \<mapsto> pr10, 11 \<mapsto> pr11]\<rparr>"

definition teamA5 :: MemoryRepository where
  "teamA5 = \<lparr>users = [1 \<mapsto> u1, 2 \<mapsto> u2, 3 \<mapsto> u3, 4 \<mapsto> u4, 5 \<mapsto> u5],
             teams = [''A'' \<mapsto> \<lparr>Team.TeamName = ''A'', Members = [1, 2, 3, 4, 5]\<rparr>],
             pullRequests = [10 \<mapsto> pr10, 11 \<mapsto> pr11]\<rparr>"

text \<open>The pull request that \<^verbatim>\<open>CreatePR\<close> creates for \<open>u1\<close> in \<open>teamA5\<close> when every draw is 0.\<close>

definition pr12 :: PullRequest where
  "pr12 = \<lparr>PullRequestID = 12, PullRequestName = ''fix'', AuthorID = 1,
           Status = StatusOpen, AssignedReviewers = [3, 4], CreatedAt = 300,
           MergedAt = None\<rparr>"

text \<open>
  A state in which a reviewer of an open pull request has no user record. The in-memory
  repository never deletes a user, so the application does not reach it; it exercises the
  last precondition of \<^verbatim>\<open>ReassignReviewer\<close>.
\<close>

definition pr13 :: PullRequest where
  "pr13 = \<lparr>PullRequestID = 13, PullRequestName = ''orphan'', AuthorID = 1,
           Status = StatusOpen, AssignedReviewers = [2, 9], CreatedAt = 300,
           MergedAt = None\<rparr>"

definition danglingReviewer :: MemoryRepository where
  "danglingReviewer = teamA3\<lparr>pullRequests := (pullRequests teamA3)(13 \<mapsto> pr13)\<rparr>"

text \<open>
  A second record for the identifier of \<open>u1\<close>, and the environment in which the example
  requests are served: the clock at \<open>t\<close>, every draw 3, the users ranged over in the order
  \<open>1, 2, 3\<close>.
\<close>

definition u1_renamed :: User where
  "u1_renamed = \<lparr>UserID = 1, Username = ''renamed'', TeamName = ''A'', IsActive = False\<rparr>"

definition teamA :: Team where
  "teamA = \<lparr>Team.TeamName = ''A'', Members = [1, 2, 3]\<rparr>"

definition envAt :: "Time \<Rightarrow> environment" where
  "envAt t = \<lparr>timeNow = t, randDraws = \<lambda>_. 3, usersRange = [1, 2, 3],
              pullRequestsRange = [10]\<rparr>"

text \<open>A random source whose draws are all the same number.\<close>

definition constantDraws :: "nat \<Rightarrow> nat \<Rightarrow> nat" where
  "constantDraws d i = d"

text \<open>
  The in-memory repository never fails an upsert of \<^verbatim>\<open>createOrUpdateMembers\<close> that runs
  alone. The use case is written against the interface, and another implementation may
  fail: \<open>FailingUserRepository bad\<close> is the in-memory one whose \<open>CreateUser\<close> refuses the
  identifier \<open>bad\<close>.
\<close>

definition FailingUserRepository :: "uuid \<Rightarrow> MemoryRepository UserRepository" where
  "FailingUserRepository bad =
     (asUserRepository [])\<lparr>CreateUser := \<lambda>r user.
        if UserID user = bad then Inl (ErrOther ''storage unavailable'')
        else Memory_CreateUser r user\<rparr>"

section \<open>Basic facts\<close>

subsection \<open>The in-memory repository behind the interfaces\<close>

lemma asUserRepository_sel:
  "CreateUser (asUserRepository order) = Memory_CreateUser"
  "UpdateUser (asUserRepository order) = Memory_UpdateUser"
  "GetUser (asUserRepository order) = Memory_GetUser"
  "UserExists (asUserRepository order) = Memory_UserExists"
  "GetUsersByTeam (asUserRepository order) = Memory_GetUsersByTeam order"
  "GetUsersByIDs (asUserRepository order) = Memory_GetUsersByIDs"
  by (simp_all add: asUserRepository_def)

lemma asTeamRepository_sel:
  "CreateTeam asTeamRepository = Memory_CreateTeam"
  "GetTeam asTeamRepository = Memory_GetTeam"
  "TeamExists asTeamRepository = Memory_TeamExists"
  by (simp_all add: asTeamRepository_def)

lemma asPullRequestRepository_sel:
  "CreatePullRequest (asPullRequestRepository order) = Memory_CreatePullRequest"
  "GetPullRequest (asPullRequestRepository order) = Memory_GetPullRequest"
  "UpdatePullRequest (asPullRequestRepository order) = Memory_UpdatePullRequest"
  "GetPullRequestsByReviewer (asPullRequestRepository order) =
     Memory_GetPullRequestsByReviewer order"
  "PRExists (asPullRequestRepository order) = Memory_PRExists"
  by (simp_all add: asPullRequestRepository_def)

lemmas memory_simps =
  asUserRepository_sel asTeamRepository_sel asPullRequestRepository_sel
  Memory_CreateUser_def Memory_UpdateUser_def Memory_GetUser_def Memory_UserExists_def
  Memory_GetUsersByTeam_def Memory_GetUsersByIDs_def Memory_CreateTeam_def Memory_GetTeam_def
  Memory_TeamExists_def Memory_CreatePullRequest_def Memory_GetPullRequest_def
  Memory_UpdatePullRequest_def Memory_GetPullRequestsByReviewer_def Memory_PRExists_def

subsection \<open>Ranging over a map\<close>

lemma map_filter_set: "set (List.map_filter m order) = {v. \<exists>k \<in> set order. m k = Some v}"
  by (induction order) (auto simp: List.map_filter_simps split: option.splits)

lemma map_filter_enumerates: "enumerates order m \<Longrightarrow> set (List.map_filter m order) = ran m"
  by (auto simp: map_filter_set enumerates_def ran_def)

lemma map_filter_keys:
  "users_keyed r \<Longrightarrow>
   map UserID (List.map_filter (users r) order) = filter (\<lambda>k. users r k \<noteq> None) order"
  by (induction order) (auto simp: List.map_filter_simps users_keyed_def split: option.splits)

subsection \<open>The loops of the pull-request use case\<close>

lemma filterActiveCandidates_filter:
  "filterActiveCandidates teamMembers authorID =
     filter (\<lambda>member. UserID member \<noteq> authorID \<and> IsActive member) teamMembers"
  by (induction teamMembers) simp_all

lemma filterReplacementCandidates_filter:
  "filterReplacementCandidates teamMembers authorID currentReviewers =
     filter (\<lambda>member. IsActive member \<and> UserID member \<noteq> authorID
                \<and> UserID member \<notin> set currentReviewers) teamMembers"
  by (induction teamMembers) (simp_all add: isAlreadyReviewer_def)

lemma replaceFirst_split:
  "old \<in> set ids \<Longrightarrow>
   \<exists>before after. ids = before @ old # after \<and> old \<notin> set before
      \<and> replaceFirst ids old new = before @ new # after"
proof (induction ids)
  case Nil
  then show ?case by simp
next
  case (Cons rid ids)
  show ?case
  proof (cases "rid = old")
    case True
    then have "rid # ids = [] @ old # ids \<and> old \<notin> set []
        \<and> replaceFirst (rid # ids) old new = [] @ new # ids"
      by simp
    then show ?thesis by blast
  next
    case False
    with Cons obtain before after where
      "ids = before @ old # after" "old \<notin> set before"
      "replaceFirst ids old new = before @ new # after"
      by auto
    with False have "rid # ids = (rid # before) @ old # after \<and> old \<notin> set (rid # before)
        \<and> replaceFirst (rid # ids) old new = (rid # before) @ new # after"
      by simp
    then show ?thesis by blast
  qed
qed

text \<open>The shuffle permutes the candidates, whatever the draws are.\<close>

lemma Shuffle_loop_mset:
  "i < length xs \<Longrightarrow> mset (Shuffle_loop rnd i swapCandidates xs) = mset xs"
proof (induction i arbitrary: xs)
  case 0
  show ?case by simp
next
  case (Suc i)
  let ?j = "Intn (rnd (Suc i)) (Suc (Suc i))"
  have "?j < Suc (Suc i)" by (simp add: Intn_def)
  with Suc.prems have j: "?j < length xs" by linarith
  have sw: "mset (swapCandidates (Suc i) ?j xs) = mset xs"
    unfolding swapCandidates_def using mset_swap [OF j Suc.prems] .
  have len: "length (swapCandidates (Suc i) ?j xs) = length xs"
    by (simp add: swapCandidates_def)
  show ?case
    using Suc.IH [of "swapCandidates (Suc i) ?j xs"] Suc.prems sw len by simp
qed

lemma Shuffle_mset: "mset (Shuffle rnd (length xs) swapCandidates xs) = mset xs"
proof (cases xs)
  case Nil
  then show ?thesis by (simp add: Shuffle_def)
next
  case (Cons x ys)
  then show ?thesis
    unfolding Shuffle_def by (intro Shuffle_loop_mset) simp
qed

lemma selectRandomReviewers_props:
  assumes "distinct (map UserID candidates)"
  shows "length (selectRandomReviewers rnd candidates n) = min (length candidates) n"
    and "distinct (selectRandomReviewers rnd candidates n)"
    and "set (selectRandomReviewers rnd candidates n) \<subseteq> UserID ` set candidates"
proof -
  let ?sh = "Shuffle rnd (length candidates) swapCandidates candidates"
  have ms: "mset ?sh = mset candidates" by (rule Shuffle_mset)
  then have len: "length ?sh = length candidates" by (metis size_mset)
  have st: "set ?sh = set candidates" using ms by (metis set_mset_mset)
  have "mset (map UserID ?sh) = mset (map UserID candidates)" using ms by (metis mset_map)
  from mset_eq_imp_distinct_iff [OF this] assms have d: "distinct (map UserID ?sh)" by blast
  show "length (selectRandomReviewers rnd candidates n) = min (length candidates) n"
    using len by (auto simp: selectRandomReviewers_def min_int_def Let_def)
  show "distinct (selectRandomReviewers rnd candidates n)"
    using d by (auto simp: selectRandomReviewers_def Let_def take_map [symmetric]
                  intro: distinct_take)
  show "set (selectRandomReviewers rnd candidates n) \<subseteq> UserID ` set candidates"
    using st by (auto simp: selectRandomReviewers_def Let_def dest!: in_set_takeD)
qed

text \<open>The search for a replacement over the in-memory repository, in one expression.\<close>

lemma findReplacementReviewer_memory:
  "findReplacementReviewer (asUserRepository uo) rnd r teamName authorID current =
     (let candidates = filter (\<lambda>u. User.TeamName u = teamName \<and> IsActive u
                                  \<and> UserID u \<noteq> authorID \<and> UserID u \<notin> set current)
                         (List.map_filter (users r) uo)
      in if candidates = [] then Inl ErrNoCandidate
         else Inr (candidates ! (rnd 0 mod length candidates)))"
  by (auto simp: findReplacementReviewer_def memory_simps filterReplacementCandidates_filter
        Let_def Intn_def intro: arg_cong2 [where f = nth] filter_cong)

subsection \<open>Upserting members\<close>

lemma createOrUpdateMembers_memory:
  "createOrUpdateMembers (asUserRepository uo) r members =
     (None, r\<lparr>users := foldl (\<lambda>m u. m(UserID u \<mapsto> u)) (users r) members\<rparr>)"
  by (induction members arbitrary: r) (simp_all add: memory_simps)

lemma upserted_lookup:
  "foldl (\<lambda>m u. m(UserID u \<mapsto> u)) m0 members k =
     (if k \<in> UserID ` set members then Some (last (filter (\<lambda>u. UserID u = k) members))
      else m0 k)"
proof (induction members rule: rev_induct)
  case Nil
  show ?case by simp
next
  case (snoc u members)
  then show ?case by auto
qed

lemma last_occurrence_id:
  assumes "member \<in> set members"
  shows "UserID (last (filter (\<lambda>u. UserID u = UserID member) members)) = UserID member"
proof -
  let ?same = "filter (\<lambda>u. UserID u = UserID member) members"
  from assms have "?same \<noteq> []" by (auto simp: filter_empty_conv)
  then have "last ?same \<in> set ?same" by (rule last_in_set)
  then show ?thesis by simp
qed

lemma AddTeam_memory:
  "AddTeam (asUserRepository uo) asTeamRepository r team members =
     (if teams r (Team.TeamName team) \<noteq> None then (Inl ErrAlreadyExists, r)
      else (Inr team,
            r\<lparr>users := foldl (\<lambda>m u. m(UserID u \<mapsto> u)) (users r) members,
              teams := (teams r)(Team.TeamName team \<mapsto> team)\<rparr>))"
  by (simp add: AddTeam_def checkTeamNotExists_def createTeam_def createOrUpdateMembers_memory
        memory_simps)

lemma createOrUpdateMembers_append:
  "createOrUpdateMembers userRepo s (xs @ ys) =
     (case createOrUpdateMembers userRepo s xs of
        (Some err, s') \<Rightarrow> (Some err, s')
      | (None, s') \<Rightarrow> createOrUpdateMembers userRepo s' ys)"
  by (induction xs arbitrary: s) (auto split: sum.splits)

lemma createOrUpdateMembers_frame:
  assumes frame: "\<And>s user s'.
      CreateUser userRepo s user = Inr s' \<or> UpdateUser userRepo s user = Inr s'
        \<Longrightarrow> TeamExists teamRepo s' teamName = TeamExists teamRepo s teamName"
  shows "createOrUpdateMembers userRepo s members = (res, s')
           \<Longrightarrow> TeamExists teamRepo s' teamName = TeamExists teamRepo s teamName"
proof (induction members arbitrary: s)
  case Nil
  then show ?case by simp
next
  case (Cons member members)
  then show ?case
    by (auto split: sum.splits if_splits dest: frame [OF disjI1] frame [OF disjI2])
qed

subsection \<open>What the requests preserve\<close>

lemma AddTeam_pullRequests:
  "pullRequests (snd (AddTeam (asUserRepository uo) asTeamRepository r team members)) =
     pullRequests r"
  by (simp add: AddTeam_memory)

lemma SetIsActive_pullRequests:
  "pullRequests (snd (SetIsActive (asUserRepository uo) r userID isActive)) = pullRequests r"
  by (simp add: SetIsActive_def getUser_def saveUser_def memory_simps Let_def
        split: option.splits)

lemma CreatePR_mergedAt:
  assumes "mergedAt_iff_merged r"
  shows "mergedAt_iff_merged (snd (CreatePR (asUserRepository uo) (asPullRequestRepository po)
           now rnd r prID prName authorID))"
  using assms
  by (auto simp: CreatePR_def checkPRNotExists_def getAuthor_def assignReviewers_def
        memory_simps Let_def mergedAt_iff_merged_def split: option.splits)

lemma MergePR_mergedAt:
  assumes "mergedAt_iff_merged r"
  shows "mergedAt_iff_merged (snd (MergePR (asPullRequestRepository po) now r prID))"
  using assms
  by (auto simp: MergePR_def getPR_def memory_simps Let_def mergedAt_iff_merged_def
        split: option.splits)

lemma ReassignReviewer_mergedAt:
  assumes "mergedAt_iff_merged r"
  shows "mergedAt_iff_merged (snd (ReassignReviewer (asUserRepository uo)
           (asPullRequestRepository po) rnd r prID oldReviewerID))"
proof (cases "pullRequests r prID")
  case None
  with assms show ?thesis
    by (simp add: ReassignReviewer_def getPR_def memory_simps)
next
  case (Some pr)
  with assms have pr: "MergedAt pr \<noteq> None \<longleftrightarrow> Status pr = StatusMerged"
    by (simp add: mergedAt_iff_merged_def)
  show ?thesis
    using assms Some pr
    by (auto simp: ReassignReviewer_def getPR_def getUser_def checkPRNotMerged_def
          checkReviewerAssigned_def replaceReviewer_def memory_simps Let_def
          mergedAt_iff_merged_def split: option.splits sum.splits)
qed

lemma handle_mergedAt: "mergedAt_iff_merged r \<Longrightarrow> mergedAt_iff_merged (handle env req r)"
proof (cases req)
  case (AddTeamRequest team members)
  assume "mergedAt_iff_merged r"
  with AddTeamRequest show ?thesis
    by (simp add: mergedAt_iff_merged_def AddTeam_pullRequests)
next
  case (SetIsActiveRequest userID isActive)
  assume "mergedAt_iff_merged r"
  with SetIsActiveRequest show ?thesis
    by (simp add: mergedAt_iff_merged_def SetIsActive_pullRequests)
next
  case (CreatePRRequest prID prName authorID)
  assume "mergedAt_iff_merged r"
  with CreatePRRequest show ?thesis by (simp add: CreatePR_mergedAt)
next
  case (MergePRRequest prID)
  assume "mergedAt_iff_merged r"
  with MergePRRequest show ?thesis by (simp add: MergePR_mergedAt)
next
  case (ReassignReviewerRequest prID oldReviewerID)
  assume "mergedAt_iff_merged r"
  with ReassignReviewerRequest show ?thesis by (simp add: ReassignReviewer_mergedAt)
qed

lemma serve_mergedAt: "mergedAt_iff_merged r \<Longrightarrow> mergedAt_iff_merged (serve reqs r)"
  by (induction reqs arbitrary: r) (auto simp: handle_mergedAt)

text \<open>
  The keys of both maps are the identifiers of their values in every state the application
  reaches: the hypotheses \<open>users_keyed\<close> and \<open>prs_keyed\<close> of the theorems below hold there.
\<close>

lemma handle_keyed:
  assumes "users_keyed r \<and> prs_keyed r"
  shows "users_keyed (handle env req r) \<and> prs_keyed (handle env req r)"
proof (cases req)
  case (AddTeamRequest team members)
  with assms show ?thesis
    by (auto simp: AddTeam_memory users_keyed_def prs_keyed_def upserted_lookup
          last_occurrence_id split: if_splits)
next
  case (SetIsActiveRequest userID isActive)
  with assms show ?thesis
    by (auto simp: SetIsActive_def getUser_def saveUser_def updateUserActiveStatus_def
          memory_simps Let_def users_keyed_def prs_keyed_def split: option.splits if_splits)
next
  case (CreatePRRequest prID prName authorID)
  with assms show ?thesis
    by (auto simp: CreatePR_def checkPRNotExists_def getAuthor_def assignReviewers_def
          memory_simps Let_def users_keyed_def prs_keyed_def split: option.splits if_splits)
next
  case (MergePRRequest prID)
  with assms show ?thesis
    by (auto simp: MergePR_def getPR_def memory_simps Let_def users_keyed_def prs_keyed_def
          split: option.splits if_splits)
next
  case (ReassignReviewerRequest prID oldReviewerID)
  with assms show ?thesis
    by (auto simp: ReassignReviewer_def getPR_def getUser_def checkPRNotMerged_def
          checkReviewerAssigned_def replaceReviewer_def memory_simps Let_def
          users_keyed_def prs_keyed_def split: option.splits sum.splits if_splits)
qed

lemma serve_keyed:
  "users_keyed (serve reqs NewMemoryRepository) \<and> prs_keyed (serve reqs NewMemoryRepository)"
proof -
  have "users_keyed r \<and> prs_keyed r \<Longrightarrow>
          users_keyed (serve reqs r) \<and> prs_keyed (serve reqs r)" for r
  proof (induction reqs arbitrary: r)
    case Nil
    then show ?case by simp
  next
    case (Cons a reqs)
    obtain env req where a: "a = (env, req)" by (cases a)
    from Cons.prems have "users_keyed (handle env req r) \<and> prs_keyed (handle env req r)"
      by (rule handle_keyed)
    then show ?case unfolding a serve.simps by (rule Cons.IH)
  qed
  moreover have "users_keyed NewMemoryRepository \<and> prs_keyed NewMemoryRepository"
    by (simp add: users_keyed_def prs_keyed_def NewMemoryRepository_def)
  ultimately show ?thesis by blast
qed

section \<open>Reviewer assignment\<close>

text \<open>
  \<^bold>\<open>C1.\<close> Whenever \<^verbatim>\<open>CreatePR\<close> succeeds on the in-memory repository, the pull request it
  returns is the one stored under \<open>prID\<close>; the number of its reviewers is the smaller of 2
  and the number of active users other than the author whose team name is the author's;
  the author is not among the reviewers; and no reviewer occurs twice. A success with no
  eligible user gives the empty list: the count is then \<open>min 2 0\<close>. This holds for every
  sequence of random draws and every order in which the map of users is ranged over.
\<close>

theorem CreatePR_reviewers:
  assumes inv: "users_keyed r" and enum: "enumerates uo (users r)"
    and ok: "CreatePR (asUserRepository uo) (asPullRequestRepository po) now rnd r
               prID prName authorID = (Inr pr, r')"
  shows "\<exists>author. users r authorID = Some author
           \<and> pullRequests r' prID = Some pr
           \<and> length (AssignedReviewers pr) =
               min 2 (card {u \<in> ran (users r). User.TeamName u = User.TeamName author
                                   \<and> UserID u \<noteq> authorID \<and> IsActive u})
           \<and> authorID \<notin> set (AssignedReviewers pr)
           \<and> distinct (AssignedReviewers pr)"
proof -
  from ok obtain author where author: "users r authorID = Some author"
    by (cases "users r authorID")
       (simp_all add: CreatePR_def checkPRNotExists_def getAuthor_def memory_simps
          split: if_splits)
  from inv author have aid: "UserID author = authorID" by (simp add: users_keyed_def)
  define members where
    "members = filter (\<lambda>user. User.TeamName user = User.TeamName author)
                 (List.map_filter (users r) uo)"
  define candidates where "candidates = filterActiveCandidates members authorID"
  from ok author aid have revs: "AssignedReviewers pr = selectRandomReviewers rnd candidates 2"
    and stored: "pullRequests r' prID = Some pr"
    by (auto simp: CreatePR_def checkPRNotExists_def getAuthor_def assignReviewers_def
          memory_simps Let_def candidates_def members_def split: if_splits)
  have cf: "candidates = filter (\<lambda>u. User.TeamName u = User.TeamName author
                                   \<and> UserID u \<noteq> authorID \<and> IsActive u)
                           (List.map_filter (users r) uo)"
    by (auto simp: candidates_def members_def filterActiveCandidates_filter intro: filter_cong)
  have "distinct (map UserID (List.map_filter (users r) uo))"
    using inv enum by (simp add: map_filter_keys enumerates_def)
  then have dall: "distinct (map UserID candidates)"
    unfolding cf by (simp add: distinct_map_filter)
  then have dc: "distinct candidates" by (simp add: distinct_map)
  have "set candidates = {u \<in> ran (users r). User.TeamName u = User.TeamName author
                                   \<and> UserID u \<noteq> authorID \<and> IsActive u}"
    unfolding cf using map_filter_enumerates [OF enum] by auto
  then have cnt: "length candidates =
      card {u \<in> ran (users r). User.TeamName u = User.TeamName author
                                   \<and> UserID u \<noteq> authorID \<and> IsActive u}"
    using distinct_card [OF dc] by simp
  have notauthor: "authorID \<notin> UserID ` set candidates"
    unfolding cf by auto
  from selectRandomReviewers_props [OF dall, of rnd 2] revs cnt notauthor author stored
  show ?thesis by (auto simp: min.commute)
qed


theorem CreatePR_reviewers_witness:
  "users_keyed teamA5 \<and> enumerates [1, 2, 3, 4, 5] (users teamA5)
   \<and> CreatePR (asUserRepository [1, 2, 3, 4, 5]) (asPullRequestRepository [10, 11])
        300 (\<lambda>_. 0) teamA5 12 ''fix'' 1 =
       (Inr pr12, teamA5\<lparr>pullRequests := (pullRequests teamA5)(12 \<mapsto> pr12)\<rparr>)
   \<and> AssignedReviewers pr12 = [3, 4]
   \<and> length (AssignedReviewers pr12) =
        min 2 (card {u \<in> ran (users teamA5). User.TeamName u = ''A''
                           \<and> UserID u \<noteq> 1 \<and> IsActive u})
   \<and> 1 \<notin> set (AssignedReviewers pr12) \<and> distinct (AssignedReviewers pr12)"
proof -
  have inv: "users_keyed teamA5"
    by (simp add: users_keyed_def teamA5_def u1_def u2_def u3_def u4_def u5_def)
  have enum: "enumerates [1, 2, 3, 4, 5] (users teamA5)"
    unfolding enumerates_def by (simp add: teamA5_def) blast
  have members: "Memory_GetUsersByTeam [1, 2, 3, 4, 5] teamA5 ''A'' = Inr [u1, u2, u3, u4, u5]"
    by (simp add: Memory_GetUsersByTeam_def teamA5_def List.map_filter_simps)
       (simp add: u1_def u2_def u3_def u4_def u5_def)
  have candidates: "filterActiveCandidates [u1, u2, u3, u4, u5] 1 = [u2, u3, u4]"
    by (simp add: u1_def u2_def u3_def u4_def u5_def)
  have selected: "selectRandomReviewers (\<lambda>_. 0) [u2, u3, u4] 2 = [3, 4]"
    by (simp add: selectRandomReviewers_def min_int_def Shuffle_def numeral_2_eq_2 Intn_def
          swapCandidates_def) (simp add: u2_def u3_def u4_def)
  have author: "users teamA5 1 = Some u1" and fresh: "pullRequests teamA5 12 = None"
    by (simp_all add: teamA5_def)
  have u1: "UserID u1 = 1" "User.TeamName u1 = ''A''"
    by (simp_all add: u1_def)
  have run: "CreatePR (asUserRepository [1, 2, 3, 4, 5]) (asPullRequestRepository [10, 11])
        300 (\<lambda>_. 0) teamA5 12 ''fix'' 1 =
       (Inr pr12, teamA5\<lparr>pullRequests := (pullRequests teamA5)(12 \<mapsto> pr12)\<rparr>)"
    by (simp add: CreatePR_def checkPRNotExists_def getAuthor_def assignReviewers_def
          asUserRepository_sel asPullRequestRepository_sel Memory_PRExists_def
          Memory_GetUser_def Memory_CreatePullRequest_def
          author fresh u1 members candidates selected pr12_def Let_def
          del: filterActiveCandidates.simps)
  from CreatePR_reviewers [OF inv enum run] author u1
  have "length (AssignedReviewers pr12) =
          min 2 (card {u \<in> ran (users teamA5). User.TeamName u = ''A''
                           \<and> UserID u \<noteq> 1 \<and> IsActive u})"
    and "1 \<notin> set (AssignedReviewers pr12)" and "distinct (AssignedReviewers pr12)"
    by simp_all
  with inv enum run show ?thesis by (simp add: pr12_def)
qed

section \<open>The author\<close>

text \<open>
  \<^bold>\<open>C9.\<close> \<^verbatim>\<open>CreatePR\<close> on the in-memory repository succeeds for every stored user as
  author and every identifier that no pull request has yet, whatever the author's
  \<open>IsActive\<close> flag is: the flag of the author is never read (\<^verbatim>\<open>filterActiveCandidates\<close>
  reads the flag of the candidates only). The pull request is stored with that author.
\<close>

theorem CreatePR_author_need_not_be_active:
  assumes "users r authorID = Some author" and "pullRequests r prID = None"
  shows "\<exists>pr r'. CreatePR (asUserRepository uo) (asPullRequestRepository po) now rnd r
                   prID prName authorID = (Inr pr, r')
               \<and> AuthorID pr = authorID \<and> pullRequests r' prID = Some pr"
  using assms
  by (simp add: CreatePR_def checkPRNotExists_def getAuthor_def assignReviewers_def
        memory_simps Let_def)

theorem CreatePR_author_need_not_be_active_witness:
  "users teamA5 5 = Some u5 \<and> \<not> IsActive u5 \<and> pullRequests teamA5 12 = None
   \<and> (\<exists>pr r'. CreatePR (asUserRepository [1, 2, 3, 4, 5]) (asPullRequestRepository [10, 11])
                  300 (\<lambda>_. 0) teamA5 12 ''fix'' 5 = (Inr pr, r')
               \<and> AuthorID pr = 5 \<and> pullRequests r' 12 = Some pr)"
proof -
  have author: "users teamA5 5 = Some u5" and fresh: "pullRequests teamA5 12 = None"
    by (simp_all add: teamA5_def)
  have inactive: "\<not> IsActive u5" by (simp add: u5_def)
  from CreatePR_author_need_not_be_active [OF author fresh] author fresh inactive
  show ?thesis by (intro conjI)
qed

section \<open>Reassignment\<close>

text \<open>
  \<^bold>\<open>C2.\<close> Whenever \<^verbatim>\<open>ReassignReviewer\<close> succeeds on the in-memory repository, the reviewer
  list of the stored pull request is \<open>before @ oldReviewerID # after\<close> with no earlier
  occurrence of \<open>oldReviewerID\<close> in \<open>before\<close>, the returned pull request is the stored one
  with the list \<open>before @ newReviewerID # after\<close> (same length, every other position and
  every other field as before), and it is what the repository holds under \<open>prID\<close>
  afterwards. The new reviewer is a stored user, active, with the team name of the old
  reviewer, different from the author and from every reviewer of the list before the call,
  the old one included. If the list had no repetition before, it has none afterwards and
  the old reviewer is no longer in it.
\<close>

theorem ReassignReviewer_replaces_in_place:
  assumes inv: "users_keyed r" "prs_keyed r"
    and ok: "ReassignReviewer (asUserRepository uo) (asPullRequestRepository po) rnd r
               prID oldReviewerID = (Inr (pr', newReviewerID), r')"
  shows "\<exists>pr oldReviewer newReviewer before after.
           pullRequests r prID = Some pr
         \<and> users r oldReviewerID = Some oldReviewer
         \<and> AssignedReviewers pr = before @ oldReviewerID # after
         \<and> oldReviewerID \<notin> set before
         \<and> pr' = pr\<lparr>AssignedReviewers := before @ newReviewerID # after\<rparr>
         \<and> r' = r\<lparr>pullRequests := (pullRequests r)(prID \<mapsto> pr')\<rparr>
         \<and> users r newReviewerID = Some newReviewer
         \<and> IsActive newReviewer
         \<and> User.TeamName newReviewer = User.TeamName oldReviewer
         \<and> newReviewerID \<noteq> AuthorID pr
         \<and> newReviewerID \<notin> set (AssignedReviewers pr)
         \<and> (distinct (AssignedReviewers pr) \<longrightarrow>
               distinct (AssignedReviewers pr') \<and> oldReviewerID \<notin> set (AssignedReviewers pr'))"
proof -
  from ok obtain pr where pr: "pullRequests r prID = Some pr"
    by (cases "pullRequests r prID") (simp_all add: ReassignReviewer_def getPR_def memory_simps)
  with inv have key: "PullRequestID pr = prID" by (simp add: prs_keyed_def)
  from ok pr have notMerged: "Status pr \<noteq> StatusMerged"
    and assigned: "oldReviewerID \<in> set (AssignedReviewers pr)"
    by (auto simp: ReassignReviewer_def getPR_def checkPRNotMerged_def checkReviewerAssigned_def
          memory_simps split: if_splits)
  from ok pr notMerged assigned obtain oldReviewer
    where old: "users r oldReviewerID = Some oldReviewer"
    by (cases "users r oldReviewerID")
       (simp_all add: ReassignReviewer_def getPR_def getUser_def checkPRNotMerged_def
          checkReviewerAssigned_def memory_simps)
  define candidates where
    "candidates = filter (\<lambda>u. User.TeamName u = User.TeamName oldReviewer \<and> IsActive u
                          \<and> UserID u \<noteq> AuthorID pr \<and> UserID u \<notin> set (AssignedReviewers pr))
                    (List.map_filter (users r) uo)"
  define newReviewer where "newReviewer = candidates ! (rnd 0 mod length candidates)"
  from ok pr notMerged assigned old have ne: "candidates \<noteq> []"
    by (auto simp: ReassignReviewer_def getPR_def getUser_def checkPRNotMerged_def
          checkReviewerAssigned_def findReplacementReviewer_memory candidates_def Let_def
          Memory_GetPullRequest_def Memory_GetUser_def asUserRepository_sel
          asPullRequestRepository_sel split: if_splits)
  with ok pr notMerged assigned old key
  have new: "newReviewerID = UserID newReviewer"
    and pr': "pr' = replaceReviewer pr oldReviewerID newReviewerID"
    and r': "r' = r\<lparr>pullRequests := (pullRequests r)(prID \<mapsto> pr')\<rparr>"
    by (auto simp: ReassignReviewer_def getPR_def getUser_def checkPRNotMerged_def
          checkReviewerAssigned_def findReplacementReviewer_memory candidates_def Let_def
          newReviewer_def replaceReviewer_def Memory_GetPullRequest_def Memory_GetUser_def
          Memory_UpdatePullRequest_def asUserRepository_sel asPullRequestRepository_sel
          split: if_splits)
  from ne have "newReviewer \<in> set candidates"
    unfolding newReviewer_def by (intro nth_mem) simp
  then have props: "User.TeamName newReviewer = User.TeamName oldReviewer"
      "IsActive newReviewer" "UserID newReviewer \<noteq> AuthorID pr"
      "UserID newReviewer \<notin> set (AssignedReviewers pr)"
    and "\<exists>k. users r k = Some newReviewer"
    by (auto simp: candidates_def map_filter_set)
  with inv have stored: "users r (UserID newReviewer) = Some newReviewer"
    by (auto simp: users_keyed_def)
  from replaceFirst_split [OF assigned, of newReviewerID] obtain before after where
    sp: "AssignedReviewers pr = before @ oldReviewerID # after" "oldReviewerID \<notin> set before"
        "replaceFirst (AssignedReviewers pr) oldReviewerID newReviewerID =
           before @ newReviewerID # after"
    by blast
  with pr' have upd: "pr' = pr\<lparr>AssignedReviewers := before @ newReviewerID # after\<rparr>"
    by (simp add: replaceReviewer_def)
  from props new sp have fresh: "newReviewerID \<notin> set before" "newReviewerID \<notin> set after"
    "newReviewerID \<noteq> oldReviewerID"
    by auto
  have unique: "distinct (AssignedReviewers pr) \<longrightarrow>
      distinct (AssignedReviewers pr') \<and> oldReviewerID \<notin> set (AssignedReviewers pr')"
    using sp(1,2) fresh by (auto simp: upd)
  from pr old sp r' new props stored upd unique show ?thesis by blast
qed

theorem ReassignReviewer_replaces_in_place_witness:
  "users_keyed teamA5 \<and> prs_keyed teamA5
   \<and> ReassignReviewer (asUserRepository [1, 2, 3, 4, 5]) (asPullRequestRepository [10, 11])
        (\<lambda>_. 0) teamA5 10 2 =
       (Inr (pr10\<lparr>AssignedReviewers := [4, 3]\<rparr>, 4),
        teamA5\<lparr>pullRequests := (pullRequests teamA5)(10 \<mapsto> pr10\<lparr>AssignedReviewers := [4, 3]\<rparr>)\<rparr>)
   \<and> (\<exists>pr oldReviewer newReviewer before after.
           pullRequests teamA5 10 = Some pr
         \<and> users teamA5 2 = Some oldReviewer
         \<and> AssignedReviewers pr = before @ 2 # after
         \<and> 2 \<notin> set before
         \<and> pr10\<lparr>AssignedReviewers := [4, 3]\<rparr> = pr\<lparr>AssignedReviewers := before @ 4 # after\<rparr>
         \<and> users teamA5 4 = Some newReviewer
         \<and> IsActive newReviewer
         \<and> User.TeamName newReviewer = User.TeamName oldReviewer
         \<and> 4 \<noteq> AuthorID pr
         \<and> 4 \<notin> set (AssignedReviewers pr))
   \<and> distinct (AssignedReviewers pr10)
   \<and> 2 \<notin> set (AssignedReviewers (pr10\<lparr>AssignedReviewers := [4, 3]\<rparr>))"
proof -
  have inv: "users_keyed teamA5" "prs_keyed teamA5"
    by (simp_all add: users_keyed_def prs_keyed_def teamA5_def u1_def u2_def u3_def u4_def
          u5_def pr10_def pr11_def)
  have pr: "pullRequests teamA5 10 = Some pr10" and old: "users teamA5 2 = Some u2"
    by (simp_all add: teamA5_def)
  have fields: "Status pr10 = StatusOpen" "AssignedReviewers pr10 = [2, 3]" "AuthorID pr10 = 1"
    "PullRequestID pr10 = 10" "User.TeamName u2 = ''A''"
    by (simp_all add: pr10_def u2_def)
  have members: "Memory_GetUsersByTeam [1, 2, 3, 4, 5] teamA5 ''A'' = Inr [u1, u2, u3, u4, u5]"
    by (simp add: Memory_GetUsersByTeam_def teamA5_def List.map_filter_simps)
       (simp add: u1_def u2_def u3_def u4_def u5_def)
  have candidates: "filterReplacementCandidates [u1, u2, u3, u4, u5] 1 [2, 3] = [u4]"
    by (simp add: isAlreadyReviewer_def u1_def u2_def u3_def u4_def u5_def)
  have found: "findReplacementReviewer (asUserRepository [1, 2, 3, 4, 5]) (\<lambda>_. 0) teamA5
                 ''A'' 1 [2, 3] = Inr u4"
    by (simp add: findReplacementReviewer_def asUserRepository_sel members candidates Intn_def
          del: filterReplacementCandidates.simps)
  have u4: "UserID u4 = 4" by (simp add: u4_def)
  have run: "ReassignReviewer (asUserRepository [1, 2, 3, 4, 5])
        (asPullRequestRepository [10, 11]) (\<lambda>_. 0) teamA5 10 2 =
       (Inr (pr10\<lparr>AssignedReviewers := [4, 3]\<rparr>, 4),
        teamA5\<lparr>pullRequests := (pullRequests teamA5)(10 \<mapsto> pr10\<lparr>AssignedReviewers := [4, 3]\<rparr>)\<rparr>)"
    by (simp add: ReassignReviewer_def getPR_def getUser_def checkPRNotMerged_def
          checkReviewerAssigned_def replaceReviewer_def asUserRepository_sel
          asPullRequestRepository_sel Memory_GetPullRequest_def Memory_GetUser_def
          Memory_UpdatePullRequest_def pr old fields found u4 Let_def)
  from ReassignReviewer_replaces_in_place [OF inv run] have "\<exists>pr oldReviewer newReviewer before after.
           pullRequests teamA5 10 = Some pr
         \<and> users teamA5 2 = Some oldReviewer
         \<and> AssignedReviewers pr = before @ 2 # after
         \<and> 2 \<notin> set before
         \<and> pr10\<lparr>AssignedReviewers := [4, 3]\<rparr> = pr\<lparr>AssignedReviewers := before @ 4 # after\<rparr>
         \<and> users teamA5 4 = Some newReviewer
         \<and> IsActive newReviewer
         \<and> User.TeamName newReviewer = User.TeamName oldReviewer
         \<and> 4 \<noteq> AuthorID pr
         \<and> 4 \<notin> set (AssignedReviewers pr)
         \<and> (distinct (AssignedReviewers pr) \<longrightarrow>
               distinct (AssignedReviewers (pr10\<lparr>AssignedReviewers := [4, 3]\<rparr>))
               \<and> 2 \<notin> set (AssignedReviewers (pr10\<lparr>AssignedReviewers := [4, 3]\<rparr>)))"
    by fast
  then obtain pr oldReviewer newReviewer before after where
    c: "pullRequests teamA5 10 = Some pr"
       "users teamA5 2 = Some oldReviewer"
       "AssignedReviewers pr = before @ 2 # after"
       "2 \<notin> set before"
       "pr10\<lparr>AssignedReviewers := [4, 3]\<rparr> = pr\<lparr>AssignedReviewers := before @ 4 # after\<rparr>"
       "users teamA5 4 = Some newReviewer"
       "IsActive newReviewer"
       "User.TeamName newReviewer = User.TeamName oldReviewer"
       "4 \<noteq> AuthorID pr"
       "4 \<notin> set (AssignedReviewers pr)"
    and u: "distinct (AssignedReviewers pr) \<longrightarrow>
               distinct (AssignedReviewers (pr10\<lparr>AssignedReviewers := [4, 3]\<rparr>))
               \<and> 2 \<notin> set (AssignedReviewers (pr10\<lparr>AssignedReviewers := [4, 3]\<rparr>))"
    by blast
  from c(1) pr have "pr = pr10" by simp
  have d: "distinct (AssignedReviewers pr10)" by (simp add: fields)
  with u \<open>pr = pr10\<close>
  have gone: "2 \<notin> set (AssignedReviewers (pr10\<lparr>AssignedReviewers := [4, 3]\<rparr>))"
    by blast
  from c have "\<exists>pr oldReviewer newReviewer before after.
           pullRequests teamA5 10 = Some pr
         \<and> users teamA5 2 = Some oldReviewer
         \<and> AssignedReviewers pr = before @ 2 # after
         \<and> 2 \<notin> set before
         \<and> pr10\<lparr>AssignedReviewers := [4, 3]\<rparr> = pr\<lparr>AssignedReviewers := before @ 4 # after\<rparr>
         \<and> users teamA5 4 = Some newReviewer
         \<and> IsActive newReviewer
         \<and> User.TeamName newReviewer = User.TeamName oldReviewer
         \<and> 4 \<noteq> AuthorID pr
         \<and> 4 \<notin> set (AssignedReviewers pr)"
    by blast
  with inv run d gone show ?thesis by (intro conjI)
qed


text \<open>
  \<^bold>\<open>C3\<close>, as it is stated, speaks of every call for which no replacement candidate exists.
  The search for a candidate is the fifth step of \<^verbatim>\<open>ReassignReviewer\<close>; the four checks
  before it return their own errors. In the scenario of the specification, with the merged
  pull request \<open>11\<close> in place of the open one: every user is the author or a reviewer, so
  there is no candidate, and the call fails with \<open>ErrPRMerged\<close>, not \<open>ErrNoCandidate\<close>.
\<close>

theorem ReassignReviewer_no_candidate_counterexample:
  "pullRequests teamA3 11 = Some pr11 \<and> users teamA3 2 = Some u2
   \<and> 2 \<in> set (AssignedReviewers pr11)
   \<and> ran (users teamA3) = {u3, u2, u1}
   \<and> UserID u1 = AuthorID pr11
   \<and> UserID u2 \<in> set (AssignedReviewers pr11)
   \<and> UserID u3 \<in> set (AssignedReviewers pr11)
   \<and> ReassignReviewer (asUserRepository [1, 2, 3]) (asPullRequestRepository [10, 11])
        (constantDraws 0) teamA3 11 2 = (Inl ErrPRMerged, teamA3)
   \<and> ErrPRMerged \<noteq> ErrNoCandidate"
proof -
  have stored: "pullRequests teamA3 11 = Some pr11" "users teamA3 2 = Some u2"
    by (simp_all add: teamA3_def)
  have all: "ran (users teamA3) = {u3, u2, u1}"
    by (simp add: teamA3_def ran_map_upd)
  have covered: "2 \<in> set (AssignedReviewers pr11)" "UserID u1 = AuthorID pr11"
    "UserID u2 \<in> set (AssignedReviewers pr11)" "UserID u3 \<in> set (AssignedReviewers pr11)"
    by (simp_all add: pr11_def u1_def u2_def u3_def)
  have merged: "Status pr11 = StatusMerged" by (simp add: pr11_def)
  have run: "ReassignReviewer (asUserRepository [1, 2, 3]) (asPullRequestRepository [10, 11])
        (constantDraws 0) teamA3 11 2 = (Inl ErrPRMerged, teamA3)"
    by (simp add: ReassignReviewer_def getPR_def checkPRNotMerged_def
          asPullRequestRepository_sel Memory_GetPullRequest_def stored merged)
  from stored all covered run show ?thesis by simp
qed

text \<open>
  \<^bold>\<open>C3\<close>, amended. Take a call of \<^verbatim>\<open>ReassignReviewer\<close> that passes the four precondition
  checks (the pull request exists and is not merged, the old reviewer is assigned and is a
  stored user). If every active user with the team name of the old reviewer is the author or
  already in the reviewer list, the call fails with \<open>ErrNoCandidate\<close> and returns the
  repository it was given: the stored pull request, its reviewer list and its status are as
  before.
\<close>

theorem ReassignReviewer_no_candidate:
  assumes "pullRequests r prID = Some pr"
    and "Status pr \<noteq> StatusMerged"
    and "oldReviewerID \<in> set (AssignedReviewers pr)"
    and "users r oldReviewerID = Some oldReviewer"
    and none: "\<forall>u \<in> ran (users r).
             User.TeamName u = User.TeamName oldReviewer \<and> IsActive u \<longrightarrow>
             UserID u = AuthorID pr \<or> UserID u \<in> set (AssignedReviewers pr)"
  shows "ReassignReviewer (asUserRepository uo) (asPullRequestRepository po) rnd r
           prID oldReviewerID = (Inl ErrNoCandidate, r)"
proof -
  have "filter (\<lambda>u. User.TeamName u = User.TeamName oldReviewer \<and> IsActive u
                      \<and> UserID u \<noteq> AuthorID pr \<and> UserID u \<notin> set (AssignedReviewers pr))
          (List.map_filter (users r) uo) = []"
    using none by (auto simp: filter_empty_conv map_filter_set ran_def)
  with assms(1-4) show ?thesis
    by (simp add: ReassignReviewer_def getPR_def getUser_def checkPRNotMerged_def
          checkReviewerAssigned_def findReplacementReviewer_memory
          Memory_GetPullRequest_def Memory_GetUser_def asUserRepository_sel
          asPullRequestRepository_sel)
qed

theorem ReassignReviewer_no_candidate_witness:
  "pullRequests teamA3 10 = Some pr10 \<and> Status pr10 \<noteq> StatusMerged
   \<and> 2 \<in> set (AssignedReviewers pr10) \<and> users teamA3 2 = Some u2
   \<and> ran (users teamA3) = {u3, u2, u1}
   \<and> ReassignReviewer (asUserRepository [3, 1, 2]) (asPullRequestRepository [10, 11])
        (\<lambda>_. 7) teamA3 10 2 = (Inl ErrNoCandidate, teamA3)"
proof -
  have pr: "pullRequests teamA3 10 = Some pr10" and old: "users teamA3 2 = Some u2"
    by (simp_all add: teamA3_def)
  have notMerged: "Status pr10 \<noteq> StatusMerged" and assigned: "2 \<in> set (AssignedReviewers pr10)"
    by (simp_all add: pr10_def)
  have all: "ran (users teamA3) = {u3, u2, u1}"
    by (simp add: teamA3_def ran_map_upd)
  have none: "\<forall>u \<in> ran (users teamA3).
             User.TeamName u = User.TeamName u2 \<and> IsActive u \<longrightarrow>
             UserID u = AuthorID pr10 \<or> UserID u \<in> set (AssignedReviewers pr10)"
    unfolding all by (simp add: u1_def u2_def u3_def pr10_def)
  from ReassignReviewer_no_candidate [OF pr notMerged assigned old none] pr notMerged assigned
    old all
  show ?thesis by simp
qed

text \<open>
  \<^bold>\<open>C4.\<close> \<^verbatim>\<open>ReassignReviewer\<close> on the in-memory repository checks, in this order: the pull
  request exists (else \<open>ErrNotFound\<close>), it is not merged (else \<open>ErrPRMerged\<close>), the old
  reviewer is in its reviewer list (else \<open>ErrNotAssigned\<close>), the old reviewer is a stored
  user (else \<open>ErrNotFound\<close>). The first check that fails decides the error, whatever the
  later ones would say, and the repository is returned as it was given.
\<close>

theorem ReassignReviewer_precondition_order:
  "(pullRequests r prID = None \<longrightarrow>
      ReassignReviewer (asUserRepository uo) (asPullRequestRepository po) rnd r prID old =
        (Inl ErrNotFound, r))
   \<and> (pullRequests r prID = Some pr \<and> Status pr = StatusMerged \<longrightarrow>
      ReassignReviewer (asUserRepository uo) (asPullRequestRepository po) rnd r prID old =
        (Inl ErrPRMerged, r))
   \<and> (pullRequests r prID = Some pr \<and> Status pr \<noteq> StatusMerged
        \<and> old \<notin> set (AssignedReviewers pr) \<longrightarrow>
      ReassignReviewer (asUserRepository uo) (asPullRequestRepository po) rnd r prID old =
        (Inl ErrNotAssigned, r))
   \<and> (pullRequests r prID = Some pr \<and> Status pr \<noteq> StatusMerged
        \<and> old \<in> set (AssignedReviewers pr) \<and> users r old = None \<longrightarrow>
      ReassignReviewer (asUserRepository uo) (asPullRequestRepository po) rnd r prID old =
        (Inl ErrNotFound, r))"
  by (simp add: ReassignReviewer_def getPR_def getUser_def checkPRNotMerged_def
        checkReviewerAssigned_def memory_simps)

theorem ReassignReviewer_precondition_order_witness:
  "ReassignReviewer (asUserRepository [1, 2, 3]) (asPullRequestRepository [10, 11])
      (\<lambda>_. 0) teamA3 99 9 = (Inl ErrNotFound, teamA3)
   \<and> ReassignReviewer (asUserRepository [1, 2, 3]) (asPullRequestRepository [10, 11])
      (\<lambda>_. 0) teamA3 11 9 = (Inl ErrPRMerged, teamA3)
   \<and> ReassignReviewer (asUserRepository [1, 2, 3]) (asPullRequestRepository [10, 11])
      (\<lambda>_. 0) teamA3 10 9 = (Inl ErrNotAssigned, teamA3)
   \<and> ReassignReviewer (asUserRepository [1, 2, 3]) (asPullRequestRepository [10, 11, 13])
      (\<lambda>_. 0) danglingReviewer 13 9 = (Inl ErrNotFound, danglingReviewer)"
proof -
  have missing: "pullRequests teamA3 99 = None"
    and merged: "pullRequests teamA3 11 = Some pr11 \<and> Status pr11 = StatusMerged"
    and unassigned: "pullRequests teamA3 10 = Some pr10 \<and> Status pr10 \<noteq> StatusMerged
        \<and> 9 \<notin> set (AssignedReviewers pr10)"
    and unknown: "pullRequests danglingReviewer 13 = Some pr13 \<and> Status pr13 \<noteq> StatusMerged
        \<and> 9 \<in> set (AssignedReviewers pr13) \<and> users danglingReviewer 9 = None"
    by (simp_all add: teamA3_def danglingReviewer_def pr10_def pr11_def pr13_def)
  from ReassignReviewer_precondition_order
         [of teamA3 99 "[1, 2, 3]" "[10, 11]" "\<lambda>_. 0" 9 pr10] missing
  have a: "ReassignReviewer (asUserRepository [1, 2, 3]) (asPullRequestRepository [10, 11])
      (\<lambda>_. 0) teamA3 99 9 = (Inl ErrNotFound, teamA3)"
    by blast
  from ReassignReviewer_precondition_order
         [of teamA3 11 "[1, 2, 3]" "[10, 11]" "\<lambda>_. 0" 9 pr11] merged
  have b: "ReassignReviewer (asUserRepository [1, 2, 3]) (asPullRequestRepository [10, 11])
      (\<lambda>_. 0) teamA3 11 9 = (Inl ErrPRMerged, teamA3)"
    by blast
  from ReassignReviewer_precondition_order
         [of teamA3 10 "[1, 2, 3]" "[10, 11]" "\<lambda>_. 0" 9 pr10] unassigned
  have c: "ReassignReviewer (asUserRepository [1, 2, 3]) (asPullRequestRepository [10, 11])
      (\<lambda>_. 0) teamA3 10 9 = (Inl ErrNotAssigned, teamA3)"
    by blast
  from ReassignReviewer_precondition_order
         [of danglingReviewer 13 "[1, 2, 3]" "[10, 11, 13]" "\<lambda>_. 0" 9 pr13] unknown
  have d: "ReassignReviewer (asUserRepository [1, 2, 3]) (asPullRequestRepository [10, 11, 13])
      (\<lambda>_. 0) danglingReviewer 13 9 = (Inl ErrNotFound, danglingReviewer)"
    by blast
  from a b c d show ?thesis by (intro conjI)
qed

section \<open>Merging\<close>

text \<open>
  \<^bold>\<open>C5.\<close> \<^verbatim>\<open>MergePR\<close> on a stored pull request that is already merged returns that pull
  request and the repository as it was given, with no error. And after any successful
  \<^verbatim>\<open>MergePR\<close> (in a state where pull requests are stored under their own identifiers), a
  second \<^verbatim>\<open>MergePR\<close> of the same identifier, at any later time, returns the very same pull
  request, whose status is \<open>StatusMerged\<close> and whose merge timestamp is therefore that of
  the first call, and leaves the repository as the first call left it.
\<close>

theorem MergePR_idempotent:
  "(pullRequests r prID = Some pr \<and> Status pr = StatusMerged \<longrightarrow>
      MergePR (asPullRequestRepository po) now r prID = (Inr pr, r))
   \<and> (prs_keyed r \<and> MergePR (asPullRequestRepository po) now1 r prID = (Inr pr1, r1) \<longrightarrow>
      Status pr1 = StatusMerged
      \<and> MergePR (asPullRequestRepository po') now2 r1 prID = (Inr pr1, r1))"
proof (rule conjI; rule impI)
  assume "pullRequests r prID = Some pr \<and> Status pr = StatusMerged"
  then show "MergePR (asPullRequestRepository po) now r prID = (Inr pr, r)"
    by (simp add: MergePR_def getPR_def memory_simps)
next
  assume a: "prs_keyed r \<and> MergePR (asPullRequestRepository po) now1 r prID = (Inr pr1, r1)"
  then have m: "MergePR (asPullRequestRepository po) now1 r prID = (Inr pr1, r1)" ..
  then obtain pr where pr: "pullRequests r prID = Some pr"
    by (cases "pullRequests r prID") (simp_all add: MergePR_def getPR_def memory_simps)
  with a have key: "PullRequestID pr = prID"
    by (simp add: prs_keyed_def)
  show "Status pr1 = StatusMerged \<and>
          MergePR (asPullRequestRepository po') now2 r1 prID = (Inr pr1, r1)"
  proof (cases "Status pr = StatusMerged")
    case True
    with m pr show ?thesis
      by (simp add: MergePR_def getPR_def memory_simps)
  next
    case False
    with m pr key have "pr1 = pr\<lparr>Status := StatusMerged, MergedAt := Some now1\<rparr>"
      and "r1 = r\<lparr>pullRequests := (pullRequests r)(prID \<mapsto> pr1)\<rparr>"
      by (auto simp: MergePR_def getPR_def memory_simps Let_def)
    then show ?thesis
      by (simp add: MergePR_def getPR_def memory_simps)
  qed
qed

theorem MergePR_idempotent_witness:
  "MergePR (asPullRequestRepository [10, 11]) 400 teamA3 11 = (Inr pr11, teamA3)
   \<and> MergedAt pr11 = Some 250
   \<and> MergePR (asPullRequestRepository [10, 11]) 400 teamA3 10 =
       (Inr (pr10\<lparr>Status := StatusMerged, MergedAt := Some 400\<rparr>),
        teamA3\<lparr>pullRequests := (pullRequests teamA3)
                 (10 \<mapsto> pr10\<lparr>Status := StatusMerged, MergedAt := Some 400\<rparr>)\<rparr>)
   \<and> MergePR (asPullRequestRepository [11, 10]) 500
        (teamA3\<lparr>pullRequests := (pullRequests teamA3)
                 (10 \<mapsto> pr10\<lparr>Status := StatusMerged, MergedAt := Some 400\<rparr>)\<rparr>) 10 =
       (Inr (pr10\<lparr>Status := StatusMerged, MergedAt := Some 400\<rparr>),
        teamA3\<lparr>pullRequests := (pullRequests teamA3)
                 (10 \<mapsto> pr10\<lparr>Status := StatusMerged, MergedAt := Some 400\<rparr>)\<rparr>)"
proof -
  have merged: "pullRequests teamA3 11 = Some pr11 \<and> Status pr11 = StatusMerged"
    and at: "MergedAt pr11 = Some 250"
    by (simp_all add: teamA3_def pr11_def)
  have keyed: "prs_keyed teamA3"
    by (simp add: prs_keyed_def teamA3_def pr10_def pr11_def)
  have stored: "pullRequests teamA3 10 = Some pr10" and fields: "Status pr10 = StatusOpen"
    "PullRequestID pr10 = 10"
    by (simp_all add: teamA3_def pr10_def)
  have first: "MergePR (asPullRequestRepository [10, 11]) 400 teamA3 10 =
       (Inr (pr10\<lparr>Status := StatusMerged, MergedAt := Some 400\<rparr>),
        teamA3\<lparr>pullRequests := (pullRequests teamA3)
                 (10 \<mapsto> pr10\<lparr>Status := StatusMerged, MergedAt := Some 400\<rparr>)\<rparr>)"
    by (simp add: MergePR_def getPR_def asPullRequestRepository_sel Memory_GetPullRequest_def
          Memory_UpdatePullRequest_def stored fields Let_def)
  from MergePR_idempotent [of teamA3 11 pr11 "[10, 11]" 400] merged
  have already: "MergePR (asPullRequestRepository [10, 11]) 400 teamA3 11 = (Inr pr11, teamA3)"
    by blast
  from MergePR_idempotent [of teamA3 10 pr10 "[10, 11]" 400 400 _ _ "[11, 10]" 500] keyed first
  have "MergePR (asPullRequestRepository [11, 10]) 500
        (teamA3\<lparr>pullRequests := (pullRequests teamA3)
                 (10 \<mapsto> pr10\<lparr>Status := StatusMerged, MergedAt := Some 400\<rparr>)\<rparr>) 10 =
       (Inr (pr10\<lparr>Status := StatusMerged, MergedAt := Some 400\<rparr>),
        teamA3\<lparr>pullRequests := (pullRequests teamA3)
                 (10 \<mapsto> pr10\<lparr>Status := StatusMerged, MergedAt := Some 400\<rparr>)\<rparr>)"
    by blast
  with already at first show ?thesis by (intro conjI)
qed

section \<open>The merge timestamp\<close>

text \<open>
  \<^bold>\<open>C6.\<close> Start from the empty repository and serve any sequence of requests, each in any
  environment. Every pull request stored afterwards has a merge timestamp if and only if
  its status is \<open>StatusMerged\<close>. (\<^verbatim>\<open>CreatePR\<close> stores \<open>StatusOpen\<close> with no timestamp,
  \<^verbatim>\<open>MergePR\<close> sets both fields in one update, \<^verbatim>\<open>ReassignReviewer\<close> writes back the pull
  request it read with another reviewer list, and the other requests do not touch pull
  requests: lemmas \<open>CreatePR_mergedAt\<close> to \<open>handle_mergedAt\<close>.)
\<close>

theorem stored_MergedAt_iff_StatusMerged:
  "pullRequests (serve reqs NewMemoryRepository) prID = Some pr \<Longrightarrow>
     (MergedAt pr \<noteq> None \<longleftrightarrow> Status pr = StatusMerged)"
proof -
  have "mergedAt_iff_merged NewMemoryRepository"
    by (simp add: mergedAt_iff_merged_def NewMemoryRepository_def)
  then have "mergedAt_iff_merged (serve reqs NewMemoryRepository)"
    by (rule serve_mergedAt)
  then show "pullRequests (serve reqs NewMemoryRepository) prID = Some pr \<Longrightarrow>
     (MergedAt pr \<noteq> None \<longleftrightarrow> Status pr = StatusMerged)"
    by (simp add: mergedAt_iff_merged_def)
qed

theorem stored_MergedAt_iff_StatusMerged_witness:
  "serve [(envAt 50, AddTeamRequest teamA [u1, u2, u3]),
          (envAt 100, CreatePRRequest 10 ''feature'' 1)] NewMemoryRepository =
     teamA3\<lparr>pullRequests := [10 \<mapsto> pr10]\<rparr>
   \<and> pullRequests (serve [(envAt 50, AddTeamRequest teamA [u1, u2, u3]),
                           (envAt 100, CreatePRRequest 10 ''feature'' 1),
                           (envAt 250, MergePRRequest 10)] NewMemoryRepository) 10 =
       Some (pr10\<lparr>Status := StatusMerged, MergedAt := Some 250\<rparr>)
   \<and> Status (pr10\<lparr>Status := StatusMerged, MergedAt := Some 250\<rparr>) = StatusMerged
   \<and> MergedAt (pr10\<lparr>Status := StatusMerged, MergedAt := Some 250\<rparr>) \<noteq> None"
proof -
  let ?added = "teamA3\<lparr>pullRequests := Map.empty\<rparr>"
  let ?created = "teamA3\<lparr>pullRequests := [10 \<mapsto> pr10]\<rparr>"
  let ?merged = "pr10\<lparr>Status := StatusMerged, MergedAt := Some 250\<rparr>"
  have env: "timeNow (envAt t) = t" "randDraws (envAt t) = (\<lambda>_. 3)"
    "usersRange (envAt t) = [1, 2, 3]" "pullRequestsRange (envAt t) = [10]" for t
    by (simp_all add: envAt_def)
  have add: "handle (envAt 50) (AddTeamRequest teamA [u1, u2, u3]) NewMemoryRepository = ?added"
    by (simp add: AddTeam_memory NewMemoryRepository_def teamA_def teamA3_def)
       (simp add: u1_def u2_def u3_def)
  have members: "Memory_GetUsersByTeam [1, 2, 3] ?added ''A'' = Inr [u1, u2, u3]"
    by (simp add: Memory_GetUsersByTeam_def teamA3_def List.map_filter_simps)
       (simp add: u1_def u2_def u3_def)
  have candidates: "filterActiveCandidates [u1, u2, u3] 1 = [u2, u3]"
    by (simp add: u1_def u2_def u3_def)
  have selected: "selectRandomReviewers (\<lambda>_. 3) [u2, u3] 2 = [2, 3]"
    by code_simp
  have author: "users teamA3 1 = Some u1" "UserID u1 = 1" "User.TeamName u1 = ''A''"
    by (simp_all add: teamA3_def u1_def)
  have create: "handle (envAt 100) (CreatePRRequest 10 ''feature'' 1) ?added = ?created"
    by (simp add: env CreatePR_def checkPRNotExists_def getAuthor_def assignReviewers_def
          asUserRepository_sel asPullRequestRepository_sel Memory_PRExists_def
          Memory_GetUser_def Memory_CreatePullRequest_def
          author members candidates selected pr10_def Let_def
          del: filterActiveCandidates.simps)
  have merge: "handle (envAt 250) (MergePRRequest 10) ?created =
                 teamA3\<lparr>pullRequests := [10 \<mapsto> ?merged]\<rparr>"
    by (simp add: env MergePR_def getPR_def asPullRequestRepository_sel
          Memory_GetPullRequest_def Memory_UpdatePullRequest_def Let_def)
       (simp add: pr10_def)
  have two: "serve [(envAt 50, AddTeamRequest teamA [u1, u2, u3]),
          (envAt 100, CreatePRRequest 10 ''feature'' 1)] NewMemoryRepository = ?created"
    by (simp add: add create del: handle.simps)
  have three: "pullRequests (serve [(envAt 50, AddTeamRequest teamA [u1, u2, u3]),
                           (envAt 100, CreatePRRequest 10 ''feature'' 1),
                           (envAt 250, MergePRRequest 10)] NewMemoryRepository) 10 =
       Some ?merged"
    by (simp add: add create merge del: handle.simps)
  have status: "Status ?merged = StatusMerged" by simp
  with stored_MergedAt_iff_StatusMerged [OF three] have "MergedAt ?merged \<noteq> None" by blast
  with two three status show ?thesis by (intro conjI)
qed

section \<open>Adding a team\<close>

text \<open>
  \<^bold>\<open>C7.\<close> For any implementation of the two repositories: let the name of the team be free,
  let the upserts of the members \<open>earlier\<close> succeed and lead to the state \<open>s1\<close>, and let
  the upsert of the next \<open>member\<close> fail there with \<open>err\<close>. Then \<^verbatim>\<open>AddTeam\<close> returns \<open>err\<close>
  and leaves the state \<open>s1\<close>: the writes of the earlier upserts are all there, nothing is
  rolled back, the members after the failing one are not looked at, and \<^verbatim>\<open>CreateTeam\<close>
  has not run. If the writes of the user repository do not change what \<^verbatim>\<open>TeamExists\<close>
  answers, the team still does not exist in \<open>s1\<close>.
\<close>

theorem AddTeam_member_failure:
  assumes check: "TeamExists teamRepo s (Team.TeamName team) = Inr False"
    and earlier: "createOrUpdateMembers userRepo s earlier = (None, s1)"
    and fails: "createOrUpdateMembers userRepo s1 [member] = (Some err, s2)"
  shows "AddTeam userRepo teamRepo s team (earlier @ member # later) = (Inl err, s1)
       \<and> ((\<forall>s user s'. CreateUser userRepo s user = Inr s' \<or> UpdateUser userRepo s user = Inr s'
               \<longrightarrow> TeamExists teamRepo s' (Team.TeamName team) =
                     TeamExists teamRepo s (Team.TeamName team))
            \<longrightarrow> TeamExists teamRepo s1 (Team.TeamName team) = Inr False)"
proof (rule conjI)
  from fails have "createOrUpdateMembers userRepo s1 (member # later) = (Some err, s1)"
    by (auto split: sum.splits if_splits)
  with earlier have "createOrUpdateMembers userRepo s (earlier @ member # later) = (Some err, s1)"
    by (simp add: createOrUpdateMembers_append)
  with check show "AddTeam userRepo teamRepo s team (earlier @ member # later) = (Inl err, s1)"
    by (simp add: AddTeam_def checkTeamNotExists_def)
next
  show "(\<forall>s user s'. CreateUser userRepo s user = Inr s' \<or> UpdateUser userRepo s user = Inr s'
               \<longrightarrow> TeamExists teamRepo s' (Team.TeamName team) =
                     TeamExists teamRepo s (Team.TeamName team))
            \<longrightarrow> TeamExists teamRepo s1 (Team.TeamName team) = Inr False"
  proof
    assume "\<forall>s user s'. CreateUser userRepo s user = Inr s' \<or> UpdateUser userRepo s user = Inr s'
               \<longrightarrow> TeamExists teamRepo s' (Team.TeamName team) =
                     TeamExists teamRepo s (Team.TeamName team)"
    then have "TeamExists teamRepo s1 (Team.TeamName team) =
                 TeamExists teamRepo s (Team.TeamName team)"
      using createOrUpdateMembers_frame [OF _ earlier] by blast
    with check show "TeamExists teamRepo s1 (Team.TeamName team) = Inr False" by simp
  qed
qed

theorem AddTeam_member_failure_witness:
  "TeamExists asTeamRepository NewMemoryRepository (Team.TeamName teamA) = Inr False
   \<and> createOrUpdateMembers (FailingUserRepository 3) NewMemoryRepository [u1, u2] =
       (None, NewMemoryRepository\<lparr>users := [1 \<mapsto> u1, 2 \<mapsto> u2]\<rparr>)
   \<and> createOrUpdateMembers (FailingUserRepository 3)
        (NewMemoryRepository\<lparr>users := [1 \<mapsto> u1, 2 \<mapsto> u2]\<rparr>) [u3] =
       (Some (ErrOther ''storage unavailable''),
        NewMemoryRepository\<lparr>users := [1 \<mapsto> u1, 2 \<mapsto> u2]\<rparr>)
   \<and> AddTeam (FailingUserRepository 3) asTeamRepository NewMemoryRepository teamA
        ([u1, u2] @ u3 # [u4]) =
       (Inl (ErrOther ''storage unavailable''),
        NewMemoryRepository\<lparr>users := [1 \<mapsto> u1, 2 \<mapsto> u2]\<rparr>)
   \<and> TeamExists asTeamRepository (NewMemoryRepository\<lparr>users := [1 \<mapsto> u1, 2 \<mapsto> u2]\<rparr>)
        (Team.TeamName teamA) = Inr False"
proof -
  let ?s1 = "NewMemoryRepository\<lparr>users := [1 \<mapsto> u1, 2 \<mapsto> u2]\<rparr>"
  have sel: "UserExists (FailingUserRepository 3) = Memory_UserExists"
    "UpdateUser (FailingUserRepository 3) = Memory_UpdateUser"
    "CreateUser (FailingUserRepository 3) = (\<lambda>r user.
        if UserID user = 3 then Inl (ErrOther ''storage unavailable'')
        else Memory_CreateUser r user)"
    by (simp_all add: FailingUserRepository_def asUserRepository_def)
  have ids: "UserID u1 = 1" "UserID u2 = 2" "UserID u3 = 3"
    by (simp_all add: u1_def u2_def u3_def)
  have check: "TeamExists asTeamRepository NewMemoryRepository (Team.TeamName teamA) = Inr False"
    by (simp add: asTeamRepository_sel Memory_TeamExists_def NewMemoryRepository_def)
  have earlier: "createOrUpdateMembers (FailingUserRepository 3) NewMemoryRepository [u1, u2] =
       (None, ?s1)"
    by (simp add: sel ids Memory_UserExists_def Memory_CreateUser_def NewMemoryRepository_def)
  have fails: "createOrUpdateMembers (FailingUserRepository 3) ?s1 [u3] =
       (Some (ErrOther ''storage unavailable''), ?s1)"
    by (simp add: sel ids Memory_UserExists_def NewMemoryRepository_def)
  have frame: "\<forall>s user s'. CreateUser (FailingUserRepository 3) s user = Inr s'
                   \<or> UpdateUser (FailingUserRepository 3) s user = Inr s'
               \<longrightarrow> TeamExists asTeamRepository s' (Team.TeamName teamA) =
                     TeamExists asTeamRepository s (Team.TeamName teamA)"
    by (auto simp: sel asTeamRepository_sel Memory_TeamExists_def Memory_CreateUser_def
          Memory_UpdateUser_def split: if_splits)
  from AddTeam_member_failure [OF check earlier fails, of "[u4]"] frame
  have "AddTeam (FailingUserRepository 3) asTeamRepository NewMemoryRepository teamA
        ([u1, u2] @ u3 # [u4]) = (Inl (ErrOther ''storage unavailable''), ?s1)"
    and "TeamExists asTeamRepository ?s1 (Team.TeamName teamA) = Inr False"
    by blast+
  with check earlier fails show ?thesis by (intro conjI)
qed

text \<open>
  \<^bold>\<open>C8.\<close> After a successful \<^verbatim>\<open>AddTeam\<close> on the in-memory repository, \<^verbatim>\<open>GetTeam\<close> of the
  team's name succeeds on the state that \<^verbatim>\<open>AddTeam\<close> left. It returns the team that was
  passed in (its name and its list of member identifiers) and, for the identifiers of
  that list in their order, the user records now stored; an identifier without a user
  record contributes nothing and is no error. The record stored for an identifier that
  occurs in \<open>members\<close> is the last one that \<open>members\<close> has for it; the other identifiers
  keep what they had; when users are stored under their own identifiers, the identifiers
  returned are the listed ones that have a record. When the list of identifiers is that of the
  \<open>members\<close> (as the controller builds it), every identifier is resolved, and to the last
  record that \<open>members\<close> has for it: identifier, user name, team name and active flag are
  those of the latest upsert.
\<close>

theorem AddTeam_GetTeam_roundtrip:
  assumes ok: "AddTeam (asUserRepository uo) asTeamRepository r team members = (Inr created, r')"
  shows "created = team
       \<and> GetTeam_usecase (asUserRepository uo') asTeamRepository r' (Team.TeamName team) =
           Inr (team, List.map_filter (users r') (Members team))
       \<and> (\<forall>k. users r' k =
              (if k \<in> UserID ` set members
               then Some (last (filter (\<lambda>u. UserID u = k) members))
               else users r k))
       \<and> (users_keyed r \<longrightarrow>
            map UserID (List.map_filter (users r') (Members team)) =
              filter (\<lambda>k. users r' k \<noteq> None) (Members team))
       \<and> (Members team = map UserID members \<longrightarrow>
            List.map_filter (users r') (Members team) =
              map (\<lambda>member. last (filter (\<lambda>u. UserID u = UserID member) members)) members
            \<and> map UserID (List.map_filter (users r') (Members team)) = Members team)"
proof -
  from ok have fresh: "teams r (Team.TeamName team) = None"
    and c: "created = team"
    and r': "r' = r\<lparr>users := foldl (\<lambda>m u. m(UserID u \<mapsto> u)) (users r) members,
              teams := (teams r)(Team.TeamName team \<mapsto> team)\<rparr>"
    by (auto simp: AddTeam_memory split: if_splits)
  have get: "GetTeam_usecase (asUserRepository uo') asTeamRepository r' (Team.TeamName team) =
           Inr (team, List.map_filter (users r') (Members team))"
    by (simp add: r' GetTeam_usecase_def getTeamByName_def getTeamMembers_def memory_simps)
  have latest: "List.map_filter (users r') (map UserID ms) =
              map (\<lambda>member. last (filter (\<lambda>u. UserID u = UserID member) members)) ms"
    if "set ms \<subseteq> set members" for ms
    using that by (induction ms) (auto simp: r' upserted_lookup List.map_filter_simps)
  have "map UserID (map (\<lambda>member. last (filter (\<lambda>u. UserID u = UserID member) members))
          members) = map UserID members"
    by (simp add: last_occurrence_id)
  moreover have "\<forall>k. users r' k =
              (if k \<in> UserID ` set members
               then Some (last (filter (\<lambda>u. UserID u = k) members))
               else users r k)"
    by (simp add: r' upserted_lookup)
  moreover have "users_keyed r \<longrightarrow>
            map UserID (List.map_filter (users r') (Members team)) =
              filter (\<lambda>k. users r' k \<noteq> None) (Members team)"
  proof
    assume "users_keyed r"
    then have "users_keyed r'"
      by (auto simp: users_keyed_def r' upserted_lookup last_occurrence_id split: if_splits)
    then show "map UserID (List.map_filter (users r') (Members team)) =
              filter (\<lambda>k. users r' k \<noteq> None) (Members team)"
      by (rule map_filter_keys)
  qed
  ultimately show ?thesis using latest [of members] c get by simp
qed

theorem AddTeam_GetTeam_roundtrip_witness:
  "AddTeam (asUserRepository []) asTeamRepository NewMemoryRepository teamA [u1, u2, u3] =
     (Inr teamA, teamA3\<lparr>pullRequests := Map.empty\<rparr>)
   \<and> Members teamA = map UserID [u1, u2, u3]
   \<and> GetTeam_usecase (asUserRepository [3, 2, 1]) asTeamRepository
        (teamA3\<lparr>pullRequests := Map.empty\<rparr>) ''A'' = Inr (teamA, [u1, u2, u3])
   \<and> AddTeam (asUserRepository []) asTeamRepository NewMemoryRepository
        (teamA\<lparr>Members := [9, 2]\<rparr>) [u2] =
       (Inr (teamA\<lparr>Members := [9, 2]\<rparr>),
        \<lparr>users = [2 \<mapsto> u2], teams = [''A'' \<mapsto> teamA\<lparr>Members := [9, 2]\<rparr>],
         pullRequests = Map.empty\<rparr>)
   \<and> GetTeam_usecase (asUserRepository [2]) asTeamRepository
        \<lparr>users = [2 \<mapsto> u2], teams = [''A'' \<mapsto> teamA\<lparr>Members := [9, 2]\<rparr>],
         pullRequests = Map.empty\<rparr> ''A'' = Inr (teamA\<lparr>Members := [9, 2]\<rparr>, [u2])"
proof -
  let ?r1 = "teamA3\<lparr>pullRequests := Map.empty\<rparr>"
  let ?r2 = "\<lparr>users = [2 \<mapsto> u2], teams = [''A'' \<mapsto> teamA\<lparr>Members := [9, 2]\<rparr>],
         pullRequests = Map.empty\<rparr>"
  have ids: "UserID u1 = 1" "UserID u2 = 2" "UserID u3 = 3"
    by (simp_all add: u1_def u2_def u3_def)
  have name: "Team.TeamName teamA = ''A''" and listed: "Members teamA = map UserID [u1, u2, u3]"
    by (simp_all add: teamA_def ids)
  have add1: "AddTeam (asUserRepository []) asTeamRepository NewMemoryRepository teamA
                [u1, u2, u3] = (Inr teamA, ?r1)"
    by (simp add: AddTeam_memory NewMemoryRepository_def teamA3_def ids name)
       (simp add: teamA_def)
  have add2: "AddTeam (asUserRepository []) asTeamRepository NewMemoryRepository
        (teamA\<lparr>Members := [9, 2]\<rparr>) [u2] = (Inr (teamA\<lparr>Members := [9, 2]\<rparr>), ?r2)"
    by (simp add: AddTeam_memory NewMemoryRepository_def ids name)
  have last1: "map (\<lambda>member. last (filter (\<lambda>u. UserID u = UserID member) [u1, u2, u3]))
                 [u1, u2, u3] = [u1, u2, u3]"
    by (simp add: ids)
  from AddTeam_GetTeam_roundtrip [OF add1, of "[3, 2, 1]"] listed last1 name
  have get1: "GetTeam_usecase (asUserRepository [3, 2, 1]) asTeamRepository ?r1 ''A'' =
                Inr (teamA, [u1, u2, u3])"
    by simp
  have found2: "List.map_filter (users ?r2) [9, 2] = [u2]"
    by (simp add: List.map_filter_simps)
  from AddTeam_GetTeam_roundtrip [OF add2, of "[2]"] found2 name
  have get2: "GetTeam_usecase (asUserRepository [2]) asTeamRepository ?r2 ''A'' =
                Inr (teamA\<lparr>Members := [9, 2]\<rparr>, [u2])"
    by simp
  from add1 listed get1 add2 get2 show ?thesis by (intro conjI)
qed

text \<open>
  \<^bold>\<open>C10.\<close> \<^verbatim>\<open>AddTeam\<close> on the in-memory repository succeeds for every list of members when
  the team's name is free, with or without repeated identifiers, and afterwards every
  identifier of the list holds the last record that the list has for it. For an
  identifier that occurs twice in a row: the first occurrence is stored by \<open>CreateUser\<close>
  when the identifier is new (by \<open>UpdateUser\<close> when a user with it is stored already); a
  \<open>CreateUser\<close> of the second occurrence would fail with \<open>ErrAlreadyExists\<close>; the loop
  finds the user and stores the second occurrence by \<open>UpdateUser\<close> instead.
\<close>

theorem AddTeam_duplicate_members:
  "(teams r (Team.TeamName team) = None \<longrightarrow>
      (\<exists>r'. AddTeam (asUserRepository uo) asTeamRepository r team members = (Inr team, r')
           \<and> (\<forall>member \<in> set members.
                 users r' (UserID member) =
                   Some (last (filter (\<lambda>u. UserID u = UserID member) members)))))
   \<and> (UserID again = UserID first \<longrightarrow>
      (\<exists>r1 r2. (if users r (UserID first) = None then Memory_CreateUser r first
                 else Memory_UpdateUser r first) = Inr r1
           \<and> Memory_CreateUser r1 again = Inl ErrAlreadyExists
           \<and> Memory_UpdateUser r1 again = Inr r2
           \<and> createOrUpdateMembers (asUserRepository uo) r [first, again] = (None, r2)
           \<and> users r2 (UserID first) = Some again))"
  by (simp add: AddTeam_memory upserted_lookup memory_simps)

theorem AddTeam_duplicate_members_witness:
  "teams NewMemoryRepository (Team.TeamName teamA) = None
   \<and> (\<exists>r'. AddTeam (asUserRepository []) asTeamRepository NewMemoryRepository teamA
              [u1, u2, u1_renamed] = (Inr teamA, r')
          \<and> users r' 1 = Some u1_renamed \<and> users r' 2 = Some u2)
   \<and> users NewMemoryRepository (UserID u1) = None \<and> UserID u1_renamed = UserID u1
   \<and> (\<exists>r1 r2. Memory_CreateUser NewMemoryRepository u1 = Inr r1
           \<and> Memory_CreateUser r1 u1_renamed = Inl ErrAlreadyExists
           \<and> Memory_UpdateUser r1 u1_renamed = Inr r2
           \<and> createOrUpdateMembers (asUserRepository []) NewMemoryRepository
                [u1, u1_renamed] = (None, r2)
           \<and> users r2 (UserID u1) = Some u1_renamed)"
proof -
  have free: "teams NewMemoryRepository (Team.TeamName teamA) = None"
    and new: "users NewMemoryRepository (UserID u1) = None" "UserID u1_renamed = UserID u1"
    by (simp_all add: NewMemoryRepository_def u1_def u1_renamed_def)
  have ids: "UserID u1 = 1" "UserID u2 = 2" "UserID u1_renamed = 1"
    by (simp_all add: u1_def u2_def u1_renamed_def)
  have last1: "last (filter (\<lambda>u. UserID u = 1) [u1, u2, u1_renamed]) = u1_renamed"
    and last2: "last (filter (\<lambda>u. UserID u = 2) [u1, u2, u1_renamed]) = u2"
    by (simp_all add: ids)
  from AddTeam_duplicate_members [of NewMemoryRepository teamA "[]" "[u1, u2, u1_renamed]"] free
  obtain r' where add: "AddTeam (asUserRepository []) asTeamRepository NewMemoryRepository teamA
              [u1, u2, u1_renamed] = (Inr teamA, r')"
    and stored: "\<forall>member \<in> set [u1, u2, u1_renamed].
                 users r' (UserID member) =
                   Some (last (filter (\<lambda>u. UserID u = UserID member) [u1, u2, u1_renamed]))"
    by blast
  from stored have "users r' 1 = Some u1_renamed" "users r' 2 = Some u2"
    by (simp_all add: ids last1 last2)
  with add have first: "\<exists>r'. AddTeam (asUserRepository []) asTeamRepository NewMemoryRepository
              teamA [u1, u2, u1_renamed] = (Inr teamA, r')
          \<and> users r' 1 = Some u1_renamed \<and> users r' 2 = Some u2"
    by blast
  from AddTeam_duplicate_members
         [where r = NewMemoryRepository and first = u1 and again = u1_renamed and uo = "[]"] new
  have "\<exists>r1 r2. (if users NewMemoryRepository (UserID u1) = None
                 then Memory_CreateUser NewMemoryRepository u1
                 else Memory_UpdateUser NewMemoryRepository u1) = Inr r1
           \<and> Memory_CreateUser r1 u1_renamed = Inl ErrAlreadyExists
           \<and> Memory_UpdateUser r1 u1_renamed = Inr r2
           \<and> createOrUpdateMembers (asUserRepository []) NewMemoryRepository
                [u1, u1_renamed] = (None, r2)
           \<and> users r2 (UserID u1) = Some u1_renamed"
    by blast
  with new(1) have second: "\<exists>r1 r2. Memory_CreateUser NewMemoryRepository u1 = Inr r1
           \<and> Memory_CreateUser r1 u1_renamed = Inl ErrAlreadyExists
           \<and> Memory_UpdateUser r1 u1_renamed = Inr r2
           \<and> createOrUpdateMembers (asUserRepository []) NewMemoryRepository
                [u1, u1_renamed] = (None, r2)
           \<and> users r2 (UserID u1) = Some u1_renamed"
    by simp
  from free first new second show ?thesis by (intro conjI)
qed

end
